theory Spec2Isabelle
  imports Complex_Main
begin

section \<open>JavaScript numbers\<close>

text \<open>
  The two scripts (\<^verbatim>\<open>src/script.js\<close> and its richer variant
  \<^verbatim>\<open>src/unnamed/part_000\<close>) compute with JavaScript numbers. The specification
  types every quantity as a real (section 3), and so does this development: a finite
  double is idealised as a \<^typ>\<open>real\<close>, rounding is not modelled. What JavaScript
  has beyond the reals is kept where the scripts can meet it: a property that is absent
  reads as \<^verbatim>\<open>undefined\<close>, and arithmetic on \<^verbatim>\<open>undefined\<close> gives
  \<^verbatim>\<open>NaN\<close>, which every later operation propagates. The infinities are not
  represented: a division by zero, which JavaScript answers with an infinity or
  \<^verbatim>\<open>NaN\<close>, is answered here with \<open>NaN\<close>, and the statements below that
  read a quotient carry the hypothesis that the divisor is not zero.
\<close>

datatype jsval = Undefined | NaN | Num real

fun arith1 :: "(real \<Rightarrow> real) \<Rightarrow> jsval \<Rightarrow> jsval" where
  "arith1 f (Num a) = Num (f a)"
| "arith1 f Undefined = NaN"
| "arith1 f NaN = NaN"

fun arith2 :: "(real \<Rightarrow> real \<Rightarrow> real) \<Rightarrow> jsval \<Rightarrow> jsval \<Rightarrow> jsval" where
  "arith2 f (Num a) (Num b) = Num (f a b)"
| "arith2 f (Num a) Undefined = NaN"
| "arith2 f (Num a) NaN = NaN"
| "arith2 f Undefined b = NaN"
| "arith2 f NaN b = NaN"

fun js_divide :: "jsval \<Rightarrow> jsval \<Rightarrow> jsval" where
  "js_divide (Num a) (Num b) = (if b = 0 then NaN else Num (a / b))"
| "js_divide (Num a) Undefined = NaN"
| "js_divide (Num a) NaN = NaN"
| "js_divide Undefined b = NaN"
| "js_divide NaN b = NaN"

text \<open>The operators \<open>+\<close>, \<open>-\<close>, \<open>*\<close>, \<open>/\<close> and unary minus of the scripts.\<close>

instantiation jsval :: "{plus, minus, times, uminus, inverse}"
begin

definition plus_jsval :: "jsval \<Rightarrow> jsval \<Rightarrow> jsval" where
  "plus_jsval a b = arith2 (+) a b"

definition minus_jsval :: "jsval \<Rightarrow> jsval \<Rightarrow> jsval" where
  "minus_jsval a b = arith2 (-) a b"

definition times_jsval :: "jsval \<Rightarrow> jsval \<Rightarrow> jsval" where
  "times_jsval a b = arith2 (*) a b"

definition uminus_jsval :: "jsval \<Rightarrow> jsval" where
  "uminus_jsval a = arith1 uminus a"

definition divide_jsval :: "jsval \<Rightarrow> jsval \<Rightarrow> jsval" where
  "divide_jsval a b = js_divide a b"

definition inverse_jsval :: "jsval \<Rightarrow> jsval" where
  "inverse_jsval a = js_divide (Num 1) a"

instance ..

end

text \<open>
  Truthiness, as \<^verbatim>\<open>if (v)\<close> and \<^verbatim>\<open>a || b\<close> read a value:
  \<^verbatim>\<open>undefined\<close>, \<^verbatim>\<open>NaN\<close> and \<open>0\<close> are falsy.
\<close>

fun truthy :: "jsval \<Rightarrow> bool" where
  "truthy (Num a) = (a \<noteq> 0)"
| "truthy Undefined = False"
| "truthy NaN = False"

definition js_or :: "jsval \<Rightarrow> jsval \<Rightarrow> jsval" where
  "js_or a b = (if truthy a then a else b)"

text \<open>The comparisons \<^verbatim>\<open>===\<close>, \<^verbatim>\<open><\<close> and \<^verbatim>\<open>>\<close>: false on \<open>NaN\<close>.\<close>

fun strict_equal :: "jsval \<Rightarrow> jsval \<Rightarrow> bool" where
  "strict_equal (Num a) (Num b) = (a = b)"
| "strict_equal Undefined Undefined = True"
| "strict_equal (Num a) Undefined = False"
| "strict_equal (Num a) NaN = False"
| "strict_equal Undefined (Num b) = False"
| "strict_equal Undefined NaN = False"
| "strict_equal NaN b = False"

fun js_less :: "jsval \<Rightarrow> jsval \<Rightarrow> bool" where
  "js_less (Num a) (Num b) = (a < b)"
| "js_less (Num a) Undefined = False"
| "js_less (Num a) NaN = False"
| "js_less Undefined b = False"
| "js_less NaN b = False"

definition js_greater :: "jsval \<Rightarrow> jsval \<Rightarrow> bool" where
  "js_greater a b = js_less b a"

text \<open>The functions of \<^verbatim>\<open>Math\<close> that the scripts and the library they call use.\<close>

definition Math_PI :: jsval where
  "Math_PI = Num pi"

definition Math_cos :: "jsval \<Rightarrow> jsval" where
  "Math_cos a = arith1 cos a"

definition Math_sin :: "jsval \<Rightarrow> jsval" where
  "Math_sin a = arith1 sin a"

definition Math_abs :: "jsval \<Rightarrow> jsval" where
  "Math_abs a = arith1 abs a"

definition Math_max :: "jsval \<Rightarrow> jsval \<Rightarrow> jsval" where
  "Math_max a b = arith2 max a b"

definition Math_min :: "jsval \<Rightarrow> jsval \<Rightarrow> jsval" where
  "Math_min a b = arith2 min a b"

fun Math_sqrt :: "jsval \<Rightarrow> jsval" where
  "Math_sqrt (Num a) = (if a < 0 then NaN else Num (sqrt a))"
| "Math_sqrt Undefined = NaN"
| "Math_sqrt NaN = NaN"

fun Math_asin :: "jsval \<Rightarrow> jsval" where
  "Math_asin (Num a) = (if - 1 \<le> a \<and> a \<le> 1 then Num (arcsin a) else NaN)"
| "Math_asin Undefined = NaN"
| "Math_asin NaN = NaN"

text \<open>
  \<^verbatim>\<open>Math.atan2(y, x)\<close> on reals: the angle of the point \<open>(x, y)\<close> in
  \<open>(-\<pi>, \<pi>]\<close>, and \<open>0\<close> at the origin.
\<close>

definition atan2_real :: "real \<Rightarrow> real \<Rightarrow> real" where
  "atan2_real b a =
     (if 0 < a then arctan (b / a)
      else if a < 0 then (if 0 \<le> b then arctan (b / a) + pi else arctan (b / a) - pi)
      else if 0 < b then pi / 2
      else if b < 0 then - (pi / 2)
      else 0)"

definition Math_atan2 :: "jsval \<Rightarrow> jsval \<Rightarrow> jsval" where
  "Math_atan2 b a = arith2 atan2_real b a"

section \<open>The scene-graph library: vectors, rotations, matrices\<close>

text \<open>
  Both scripts import the rendering library \<^verbatim>\<open>three\<close>. Its source is not part
  of the repository; the definitions of this section follow the library's documented
  behaviour: \<^verbatim>\<open>Vector3\<close>, \<^verbatim>\<open>Euler\<close> (rotation order \<open>XYZ\<close>, the default,
  which neither script changes), \<^verbatim>\<open>Quaternion\<close>, and \<^verbatim>\<open>Matrix4\<close> with
  its sixteen \<^verbatim>\<open>elements\<close> in column-major order (\<open>te[0] \<dots> te[15]\<close>).
\<close>

datatype vector3 = Vector3 (v_x: jsval) (v_y: jsval) (v_z: jsval)

datatype euler = Euler (e_x: jsval) (e_y: jsval) (e_z: jsval)

datatype quaternion = Quaternion (q_x: jsval) (q_y: jsval) (q_z: jsval) (q_w: jsval)

datatype matrix4 = Matrix4
  (te0: jsval) (te1: jsval) (te2: jsval) (te3: jsval)
  (te4: jsval) (te5: jsval) (te6: jsval) (te7: jsval)
  (te8: jsval) (te9: jsval) (te10: jsval) (te11: jsval)
  (te12: jsval) (te13: jsval) (te14: jsval) (te15: jsval)

text \<open>\<^verbatim>\<open>Quaternion.setFromEuler\<close>, order \<open>XYZ\<close>.\<close>

definition setFromEuler :: "euler \<Rightarrow> quaternion" where
  "setFromEuler e =
     (let c1 = Math_cos (e_x e / Num 2); c2 = Math_cos (e_y e / Num 2);
          c3 = Math_cos (e_z e / Num 2);
          s1 = Math_sin (e_x e / Num 2); s2 = Math_sin (e_y e / Num 2);
          s3 = Math_sin (e_z e / Num 2)
      in Quaternion (s1 * c2 * c3 + c1 * s2 * s3)
                    (c1 * s2 * c3 - s1 * c2 * s3)
                    (c1 * c2 * s3 + s1 * s2 * c3)
                    (c1 * c2 * c3 - s1 * s2 * s3))"

text \<open>
  \<^verbatim>\<open>Matrix4.compose(position, quaternion, scale)\<close>: the local matrix of a node.
\<close>

definition compose :: "vector3 \<Rightarrow> quaternion \<Rightarrow> vector3 \<Rightarrow> matrix4" where
  "compose p q s =
     (let x = q_x q; y = q_y q; z = q_z q; w = q_w q;
          x2 = x + x; y2 = y + y; z2 = z + z;
          xx = x * x2; xy = x * y2; xz = x * z2;
          yy = y * y2; yz = y * z2; zz = z * z2;
          wx = w * x2; wy = w * y2; wz = w * z2;
          sx = v_x s; sy = v_y s; sz = v_z s
      in Matrix4
           ((Num 1 - (yy + zz)) * sx) ((xy + wz) * sx) ((xz - wy) * sx) (Num 0)
           ((xy - wz) * sy) ((Num 1 - (xx + zz)) * sy) ((yz + wx) * sy) (Num 0)
           ((xz + wy) * sz) ((yz - wx) * sz) ((Num 1 - (xx + yy)) * sz) (Num 0)
           (v_x p) (v_y p) (v_z p) (Num 1))"

text \<open>\<^verbatim>\<open>Matrix4.multiplyMatrices(a, b)\<close>: the product \<open>a \<cdot> b\<close>.\<close>

fun multiplyMatrices :: "matrix4 \<Rightarrow> matrix4 \<Rightarrow> matrix4" where
  "multiplyMatrices
     (Matrix4 a11 a21 a31 a41 a12 a22 a32 a42 a13 a23 a33 a43 a14 a24 a34 a44)
     (Matrix4 b11 b21 b31 b41 b12 b22 b32 b42 b13 b23 b33 b43 b14 b24 b34 b44) =
   Matrix4
     (a11 * b11 + a12 * b21 + a13 * b31 + a14 * b41)
     (a21 * b11 + a22 * b21 + a23 * b31 + a24 * b41)
     (a31 * b11 + a32 * b21 + a33 * b31 + a34 * b41)
     (a41 * b11 + a42 * b21 + a43 * b31 + a44 * b41)
     (a11 * b12 + a12 * b22 + a13 * b32 + a14 * b42)
     (a21 * b12 + a22 * b22 + a23 * b32 + a24 * b42)
     (a31 * b12 + a32 * b22 + a33 * b32 + a34 * b42)
     (a41 * b12 + a42 * b22 + a43 * b32 + a44 * b42)
     (a11 * b13 + a12 * b23 + a13 * b33 + a14 * b43)
     (a21 * b13 + a22 * b23 + a23 * b33 + a24 * b43)
     (a31 * b13 + a32 * b23 + a33 * b33 + a34 * b43)
     (a41 * b13 + a42 * b23 + a43 * b33 + a44 * b43)
     (a11 * b14 + a12 * b24 + a13 * b34 + a14 * b44)
     (a21 * b14 + a22 * b24 + a23 * b34 + a24 * b44)
     (a31 * b14 + a32 * b24 + a33 * b34 + a34 * b44)
     (a41 * b14 + a42 * b24 + a43 * b34 + a44 * b44)"

text \<open>\<^verbatim>\<open>Vector3.setFromMatrixPosition(m)\<close>: the translation column of \<open>m\<close>.\<close>

definition setFromMatrixPosition :: "matrix4 \<Rightarrow> vector3" where
  "setFromMatrixPosition m = Vector3 (te12 m) (te13 m) (te14 m)"

text \<open>The operations of \<^verbatim>\<open>Vector3\<close> that \<^verbatim>\<open>lookAt\<close> uses.\<close>

definition subVectors :: "vector3 \<Rightarrow> vector3 \<Rightarrow> vector3" where
  "subVectors a b = Vector3 (v_x a - v_x b) (v_y a - v_y b) (v_z a - v_z b)"

definition crossVectors :: "vector3 \<Rightarrow> vector3 \<Rightarrow> vector3" where
  "crossVectors a b =
     Vector3 (v_y a * v_z b - v_z a * v_y b)
             (v_z a * v_x b - v_x a * v_z b)
             (v_x a * v_y b - v_y a * v_x b)"

definition lengthSq :: "vector3 \<Rightarrow> jsval" where
  "lengthSq v = v_x v * v_x v + v_y v * v_y v + v_z v * v_z v"

definition vector_length :: "vector3 \<Rightarrow> jsval" where
  "vector_length v = Math_sqrt (lengthSq v)"

definition multiplyScalar :: "jsval \<Rightarrow> vector3 \<Rightarrow> vector3" where
  "multiplyScalar k v = Vector3 (v_x v * k) (v_y v * k) (v_z v * k)"

definition divideScalar :: "jsval \<Rightarrow> vector3 \<Rightarrow> vector3" where
  "divideScalar k v = multiplyScalar (Num 1 / k) v"

definition normalize :: "vector3 \<Rightarrow> vector3" where
  "normalize v = divideScalar (js_or (vector_length v) (Num 1)) v"

text \<open>
  \<^verbatim>\<open>Matrix4.lookAt(eye, target, up)\<close>: the rotation whose third column points from
  \<open>target\<close> to \<open>eye\<close>. The library writes the nine rotation entries of a scratch
  matrix; the other seven, which no caller here reads, are shown as the identity's.
\<close>

definition matrix_lookAt :: "vector3 \<Rightarrow> vector3 \<Rightarrow> vector3 \<Rightarrow> matrix4" where
  "matrix_lookAt eye target u =
     (let z0 = subVectors eye target;
          z1 = (if strict_equal (lengthSq z0) (Num 0)
                then Vector3 (v_x z0) (v_y z0) (Num 1) else z0);
          z2 = normalize z1;
          x0 = crossVectors u z2;
          z3 = (if strict_equal (lengthSq x0) (Num 0)
                then normalize
                       (if strict_equal (Math_abs (v_z u)) (Num 1)
                        then Vector3 (v_x z2 + Num (1 / 10000)) (v_y z2) (v_z z2)
                        else Vector3 (v_x z2) (v_y z2) (v_z z2 + Num (1 / 10000)))
                else z2);
          x1 = (if strict_equal (lengthSq x0) (Num 0) then crossVectors u z3 else x0);
          x2 = normalize x1;
          y2 = crossVectors z3 x2
      in Matrix4 (v_x x2) (v_y x2) (v_z x2) (Num 0)
                 (v_x y2) (v_y y2) (v_z y2) (Num 0)
                 (v_x z3) (v_y z3) (v_z z3) (Num 0)
                 (Num 0) (Num 0) (Num 0) (Num 1))"

text \<open>\<^verbatim>\<open>Matrix4.extractRotation(m)\<close>: the columns of \<open>m\<close>, each scaled to length one.\<close>

definition extractRotation :: "matrix4 \<Rightarrow> matrix4" where
  "extractRotation m =
     (let scaleX = Num 1 / vector_length (Vector3 (te0 m) (te1 m) (te2 m));
          scaleY = Num 1 / vector_length (Vector3 (te4 m) (te5 m) (te6 m));
          scaleZ = Num 1 / vector_length (Vector3 (te8 m) (te9 m) (te10 m))
      in Matrix4 (te0 m * scaleX) (te1 m * scaleX) (te2 m * scaleX) (Num 0)
                 (te4 m * scaleY) (te5 m * scaleY) (te6 m * scaleY) (Num 0)
                 (te8 m * scaleZ) (te9 m * scaleZ) (te10 m * scaleZ) (Num 0)
                 (Num 0) (Num 0) (Num 0) (Num 1))"

text \<open>\<^verbatim>\<open>Quaternion.setFromRotationMatrix(m)\<close>, by the sign of the trace.\<close>

definition setFromRotationMatrix :: "matrix4 \<Rightarrow> quaternion" where
  "setFromRotationMatrix m =
     (let m11 = te0 m; m12 = te4 m; m13 = te8 m;
          m21 = te1 m; m22 = te5 m; m23 = te9 m;
          m31 = te2 m; m32 = te6 m; m33 = te10 m;
          trace = m11 + m22 + m33
      in if js_greater trace (Num 0) then
           (let s = Num (1 / 2) / Math_sqrt (trace + Num 1)
            in Quaternion ((m32 - m23) * s) ((m13 - m31) * s) ((m21 - m12) * s)
                 (Num (1 / 4) / s))
         else if js_greater m11 m22 \<and> js_greater m11 m33 then
           (let s = Num 2 * Math_sqrt (Num 1 + m11 - m22 - m33)
            in Quaternion (Num (1 / 4) * s) ((m12 + m21) / s) ((m13 + m31) / s)
                 ((m32 - m23) / s))
         else if js_greater m22 m33 then
           (let s = Num 2 * Math_sqrt (Num 1 + m22 - m11 - m33)
            in Quaternion ((m12 + m21) / s) (Num (1 / 4) * s) ((m23 + m32) / s)
                 ((m13 - m31) / s))
         else
           (let s = Num 2 * Math_sqrt (Num 1 + m33 - m11 - m22)
            in Quaternion ((m13 + m31) / s) ((m23 + m32) / s) (Num (1 / 4) * s)
                 ((m21 - m12) / s)))"

text \<open>
  \<^verbatim>\<open>Quaternion.multiplyQuaternions(a, b)\<close> and \<^verbatim>\<open>Quaternion.invert()\<close>
  (the conjugate).
\<close>

definition multiplyQuaternions :: "quaternion \<Rightarrow> quaternion \<Rightarrow> quaternion" where
  "multiplyQuaternions a b =
     Quaternion
       (q_x a * q_w b + q_w a * q_x b + q_y a * q_z b - q_z a * q_y b)
       (q_y a * q_w b + q_w a * q_y b + q_z a * q_x b - q_x a * q_z b)
       (q_z a * q_w b + q_w a * q_z b + q_x a * q_y b - q_y a * q_x b)
       (q_w a * q_w b - q_x a * q_x b - q_y a * q_y b - q_z a * q_z b)"

definition invert :: "quaternion \<Rightarrow> quaternion" where
  "invert q = Quaternion (q_x q * Num (- 1)) (q_y q * Num (- 1)) (q_z q * Num (- 1)) (q_w q)"

text \<open>
  \<^verbatim>\<open>Euler.setFromQuaternion(q)\<close>: the matrix of \<open>q\<close>
  (\<^verbatim>\<open>Matrix4.makeRotationFromQuaternion\<close>), then
  \<^verbatim>\<open>Euler.setFromRotationMatrix\<close> for the order \<open>XYZ\<close>.
\<close>

definition makeRotationFromQuaternion :: "quaternion \<Rightarrow> matrix4" where
  "makeRotationFromQuaternion q =
     compose (Vector3 (Num 0) (Num 0) (Num 0)) q (Vector3 (Num 1) (Num 1) (Num 1))"

definition clamp :: "jsval \<Rightarrow> jsval \<Rightarrow> jsval \<Rightarrow> jsval" where
  "clamp v lo hi = Math_max lo (Math_min hi v)"

definition euler_setFromRotationMatrix :: "matrix4 \<Rightarrow> euler" where
  "euler_setFromRotationMatrix m =
     (let m11 = te0 m; m12 = te4 m; m13 = te8 m;
          m22 = te5 m; m23 = te9 m;
          m32 = te6 m; m33 = te10 m;
          b = Math_asin (clamp m13 (Num (- 1)) (Num 1))
      in if js_less (Math_abs m13) (Num (9999999 / 10000000))
         then Euler (Math_atan2 (- m23) m33) b (Math_atan2 (- m12) m11)
         else Euler (Math_atan2 m32 m22) b (Num 0))"

definition setFromQuaternion :: "quaternion \<Rightarrow> euler" where
  "setFromQuaternion q = euler_setFromRotationMatrix (makeRotationFromQuaternion q)"

section \<open>Scene-graph nodes\<close>

text \<open>
  An \<^verbatim>\<open>Object3D\<close> holds its local transform. \<open>rotation\<close> and \<open>quaternion\<close>
  are two views of one orientation: the library's change callbacks rewrite the
  quaternion whenever an Euler angle is assigned, and the Euler angles whenever the
  quaternion is. The cached \<^verbatim>\<open>matrix\<close> and \<^verbatim>\<open>matrixWorld\<close> are not
  fields here: with \<^verbatim>\<open>matrixAutoUpdate\<close> on (the default, which neither script
  changes) every read of a world transform recomputes them from these fields first.
\<close>

record object3D =
  position :: vector3
  rotation :: euler
  quaternion :: quaternion
  scale :: vector3
  up :: vector3

definition newObject3D :: object3D where
  "newObject3D =
     \<lparr>position = Vector3 (Num 0) (Num 0) (Num 0),
      rotation = Euler (Num 0) (Num 0) (Num 0),
      quaternion = Quaternion (Num 0) (Num 0) (Num 0) (Num 1),
      scale = Vector3 (Num 1) (Num 1) (Num 1),
      up = Vector3 (Num 0) (Num 1) (Num 0)\<rparr>"

text \<open>Assignments to \<^verbatim>\<open>rotation.x\<close>, \<^verbatim>\<open>rotation.y\<close>, \<^verbatim>\<open>rotation.z\<close>.\<close>

definition set_rotation :: "euler \<Rightarrow> object3D \<Rightarrow> object3D" where
  "set_rotation e obj = obj\<lparr>rotation := e, quaternion := setFromEuler e\<rparr>"

definition set_rotation_x :: "jsval \<Rightarrow> object3D \<Rightarrow> object3D" where
  "set_rotation_x a obj =
     set_rotation (Euler a (e_y (rotation obj)) (e_z (rotation obj))) obj"

definition set_rotation_y :: "jsval \<Rightarrow> object3D \<Rightarrow> object3D" where
  "set_rotation_y a obj =
     set_rotation (Euler (e_x (rotation obj)) a (e_z (rotation obj))) obj"

definition set_rotation_z :: "jsval \<Rightarrow> object3D \<Rightarrow> object3D" where
  "set_rotation_z a obj =
     set_rotation (Euler (e_x (rotation obj)) (e_y (rotation obj)) a) obj"

text \<open>An assignment to the quaternion (all four components at once).\<close>

definition set_quaternion :: "quaternion \<Rightarrow> object3D \<Rightarrow> object3D" where
  "set_quaternion q obj = obj\<lparr>quaternion := q, rotation := setFromQuaternion q\<rparr>"

text \<open>\<^verbatim>\<open>Object3D.updateMatrix()\<close>: the local matrix.\<close>

definition updateMatrix :: "object3D \<Rightarrow> matrix4" where
  "updateMatrix obj = compose (position obj) (quaternion obj) (scale obj)"

text \<open>
  \<^verbatim>\<open>Object3D.updateWorldMatrix(true, false)\<close> for a node whose parent's world
  matrix is \<open>pw\<close>, and for a root (the scene, which has no parent).
\<close>

definition worldMatrix :: "matrix4 \<Rightarrow> object3D \<Rightarrow> matrix4" where
  "worldMatrix pw obj = multiplyMatrices pw (updateMatrix obj)"

definition sceneMatrixWorld :: matrix4 where
  "sceneMatrixWorld = updateMatrix newObject3D"

text \<open>
  \<^verbatim>\<open>Object3D.lookAt(target)\<close> for a node that is neither a camera nor a light
  and whose parent's world matrix is \<open>pw\<close>.
\<close>

definition lookAt :: "matrix4 \<Rightarrow> vector3 \<Rightarrow> object3D \<Rightarrow> object3D" where
  "lookAt pw target obj =
     (let p = setFromMatrixPosition (worldMatrix pw obj);
          obj1 = set_quaternion (setFromRotationMatrix (matrix_lookAt target p (up obj))) obj;
          q1 = setFromRotationMatrix (extractRotation pw)
      in set_quaternion (multiplyQuaternions (invert q1) (quaternion obj1)) obj1)"

section \<open>The scripts\<close>

subsection \<open>Celestial body data\<close>

text \<open>
  One entry of \<^verbatim>\<open>solarSystemData\<close>. A numeric property that an entry leaves out
  reads as \<^const>\<open>Undefined\<close>; the flags \<^verbatim>\<open>isSun\<close> and \<^verbatim>\<open>hasRing\<close>
  are only tested for truthiness, so an absent flag is \<^const>\<open>False\<close>.
\<close>

record descriptor =
  name :: string
  radius :: jsval
  color :: jsval
  isSun :: bool
  orbitalRadius :: jsval
  orbitalSpeed :: jsval
  rotationSpeed :: jsval
  hasRing :: bool

definition star :: "string \<Rightarrow> real \<Rightarrow> real \<Rightarrow> descriptor" where
  "star n r c =
     \<lparr>name = n, radius = Num r, color = Num c, isSun = True, orbitalRadius = Undefined,
      orbitalSpeed = Undefined, rotationSpeed = Undefined, hasRing = False\<rparr>"

definition planet :: "string \<Rightarrow> real \<Rightarrow> real \<Rightarrow> real \<Rightarrow> real \<Rightarrow> real \<Rightarrow> bool \<Rightarrow> descriptor" where
  "planet n r c orad ospeed rspeed ring =
     \<lparr>name = n, radius = Num r, color = Num c, isSun = False, orbitalRadius = Num orad,
      orbitalSpeed = Num ospeed, rotationSpeed = Num rspeed, hasRing = ring\<rparr>"

text \<open>The table of both scripts (colours are the hexadecimal literals' values).\<close>

definition solarSystemData :: "descriptor list" where
  "solarSystemData =
     [star ''Sun'' 20 16776960,
      planet ''Mercury'' 2 11184810 50 (4 / 100) (1 / 100) False,
      planet ''Venus'' 4 16770229 80 (25 / 1000) (5 / 1000) False,
      planet ''Earth'' (45 / 10) 4620980 120 (15 / 1000) (2 / 100) False,
      planet ''Mars'' 3 16729344 160 (1 / 100) (18 / 1000) False,
      planet ''Jupiter'' 12 13808780 220 (5 / 1000) (4 / 100) False,
      planet ''Saturn'' 10 16032864 280 (3 / 1000) (35 / 1000) True,
      planet ''Uranus'' 7 11529966 340 (2 / 1000) (25 / 1000) False,
      planet ''Neptune'' (65 / 10) 4286945 390 (1 / 1000) (23 / 1000) False]"

subsection \<open>The entries of \<^verbatim>\<open>celestialObjects\<close>\<close>

text \<open>
  An entry \<^verbatim>\<open>{ mesh, pivot, data, isTheo }\<close> with the nodes it owns. The scene
  graph the scripts build has a fixed shape, and no node is shared between entries:
  the mesh is a child of the entry's pivot when it has one and of the scene otherwise,
  a pivot is a child of the scene, and the label and the ring are children of the mesh.
  So an entry carries its nodes by value, and the parent of each is read off the entry.
  The geometry of the mesh is the sphere of radius \<open>radius (data obj)\<close>.
\<close>

datatype material = MeshBasicMaterial | MeshStandardMaterial

record ringMesh =
  ringObject :: object3D
  innerRadius :: jsval
  outerRadius :: jsval

record celestialObject =
  mesh :: object3D
  material :: material
  label :: "object3D option"
  ring :: "ringMesh option"
  pivot :: "object3D option"
  data :: descriptor
  isTheo :: bool

text \<open>
  The two scripts differ in what they build per body: \<^verbatim>\<open>part_000\<close> adds a label
  to every mesh, \<^verbatim>\<open>script.js\<close> has none.
\<close>

datatype variant = Script_js | Part_000

definition createLabel :: "variant \<Rightarrow> descriptor \<Rightarrow> object3D option" where
  "createLabel v d =
     (case v of
        Script_js \<Rightarrow> None
      | Part_000 \<Rightarrow>
          Some (newObject3D\<lparr>position := Vector3 (Num 0) (radius d * Num (15 / 10)) (Num 0)\<rparr>))"

definition createRing :: "descriptor \<Rightarrow> ringMesh" where
  "createRing d =
     \<lparr>ringObject = set_rotation_x (Math_PI / Num 2) newObject3D,
      innerRadius = radius d * Num (13 / 10),
      outerRadius = radius d * Num 2\<rparr>"

text \<open>
  The body of the \<^verbatim>\<open>solarSystemData.forEach\<close> callback: the entry it pushes.
  It tests nothing but the two flags and has no \<^verbatim>\<open>throw\<close>.
\<close>

definition createBody :: "variant \<Rightarrow> descriptor \<Rightarrow> celestialObject" where
  "createBody v d =
     (if isSun d then
        \<lparr>mesh = newObject3D, material = MeshBasicMaterial, label = createLabel v d,
         ring = None, pivot = None, data = d, isTheo = False\<rparr>
      else
        \<lparr>mesh = newObject3D\<lparr>position :=
                  Vector3 (orbitalRadius d) (v_y (position newObject3D))
                    (v_z (position newObject3D))\<rparr>,
         material = MeshStandardMaterial, label = createLabel v d,
         ring = (if hasRing d then Some (createRing d) else None),
         pivot = Some newObject3D, data = d, isTheo = False\<rparr>)"

fun createCelestialBodies ::
  "variant \<Rightarrow> descriptor list \<Rightarrow> celestialObject list \<Rightarrow> celestialObject list" where
  "createCelestialBodies v [] objs = objs"
| "createCelestialBodies v (d # ds) objs = createCelestialBodies v ds (objs @ [createBody v d])"

text \<open>The entry \<^verbatim>\<open>part_000\<close> pushes after the bodies.\<close>

definition theoData :: descriptor where
  "theoData =
     \<lparr>name = ''Theo'', radius = Undefined, color = Undefined, isSun = False,
      orbitalRadius = Undefined, orbitalSpeed = Undefined, rotationSpeed = Undefined,
      hasRing = False\<rparr>"

definition createTheo :: celestialObject where
  "createTheo =
     \<lparr>mesh = newObject3D, material = MeshBasicMaterial, label = None, ring = None,
      pivot = None, data = theoData, isTheo = True\<rparr>"

subsection \<open>Program state and start-up\<close>

text \<open>
  What the top-level bindings of a script hold: the array \<^verbatim>\<open>celestialObjects\<close>,
  the camera's position and aspect ratio, the size and pixel ratio of the renderer, the
  size of the label renderer (\<^const>\<open>None\<close> in \<^verbatim>\<open>script.js\<close>, which has none),
  the target of the camera controls, and the vector \<^verbatim>\<open>targetPosition\<close> of
  \<^verbatim>\<open>part_000\<close>. The inputs of the host are arguments: the window's
  \<^verbatim>\<open>innerWidth\<close> and \<^verbatim>\<open>innerHeight\<close> (pixel counts), its
  \<^verbatim>\<open>devicePixelRatio\<close>, and the readings of the clock.
\<close>

record state =
  celestialObjects :: "celestialObject list"
  camera_position :: vector3
  camera_aspect :: jsval
  renderer_size :: "jsval \<times> jsval"
  renderer_pixelRatio :: jsval
  labelRenderer_size :: "(jsval \<times> jsval) option"
  controls_target :: vector3
  targetPosition :: vector3

definition basicSetup :: "variant \<Rightarrow> nat \<Rightarrow> nat \<Rightarrow> real \<Rightarrow> state" where
  "basicSetup v innerWidth innerHeight devicePixelRatio =
     \<lparr>celestialObjects = [],
      camera_position = Vector3 (Num 0) (Num 150) (Num 400),
      camera_aspect = Num (real innerWidth) / Num (real innerHeight),
      renderer_size = (Num (real innerWidth), Num (real innerHeight)),
      renderer_pixelRatio = Num devicePixelRatio,
      labelRenderer_size =
        (case v of Script_js \<Rightarrow> None
         | Part_000 \<Rightarrow> Some (Num (real innerWidth), Num (real innerHeight))),
      controls_target = Vector3 (Num 0) (Num 0) (Num 0),
      targetPosition = Vector3 (Num 0) (Num 0) (Num 0)\<rparr>"

text \<open>
  The Scene Graph Builder as an operation that could fail: the specification names the
  failure \<open>InvalidDescriptor\<close>. The scripts have no statement that raises it, so every
  path of the model returns normally.
\<close>

datatype error = InvalidDescriptor

definition buildScene :: "variant \<Rightarrow> descriptor list \<Rightarrow> error + celestialObject list" where
  "buildScene v ds =
     (case v of
        Script_js \<Rightarrow> Inr (createCelestialBodies v ds [])
      | Part_000 \<Rightarrow> Inr (createCelestialBodies v ds [] @ [createTheo]))"

definition startup :: "variant \<Rightarrow> nat \<Rightarrow> nat \<Rightarrow> real \<Rightarrow> descriptor list \<Rightarrow> error + state" where
  "startup v innerWidth innerHeight devicePixelRatio ds =
     (case buildScene v ds of
        Inl e \<Rightarrow> Inl e
      | Inr objs \<Rightarrow> Inr ((basicSetup v innerWidth innerHeight devicePixelRatio)\<lparr>celestialObjects := objs\<rparr>))"

subsection \<open>World positions\<close>

definition parentMatrixWorld :: "celestialObject \<Rightarrow> matrix4" where
  "parentMatrixWorld obj =
     (case pivot obj of
        None \<Rightarrow> sceneMatrixWorld
      | Some p \<Rightarrow> worldMatrix sceneMatrixWorld p)"

text \<open>
  \<^verbatim>\<open>mesh.getWorldPosition(target)\<close>: the world matrices of the ancestors and of
  the mesh are recomputed, root first, and the translation column is read.
\<close>

definition getWorldPosition :: "celestialObject \<Rightarrow> vector3" where
  "getWorldPosition obj =
     setFromMatrixPosition (worldMatrix (parentMatrixWorld obj) (mesh obj))"

subsection \<open>The animation loop\<close>

text \<open>
  The planet branch of the update loop (all of the loop body in \<^verbatim>\<open>script.js\<close>):
  its two statements in order, the spin of the mesh about its axis and the turn of the
  pivot, each guarded by the truthiness of its speed.
\<close>

definition spin :: "celestialObject \<Rightarrow> celestialObject" where
  "spin obj =
     (if truthy (rotationSpeed (data obj))
      then obj\<lparr>mesh := set_rotation_y
                  (e_y (rotation (mesh obj)) + rotationSpeed (data obj)) (mesh obj)\<rparr>
      else obj)"

definition orbit :: "celestialObject \<Rightarrow> celestialObject" where
  "orbit obj =
     (case pivot obj of
        None \<Rightarrow> obj
      | Some p \<Rightarrow>
          if truthy (orbitalSpeed (data obj))
          then obj\<lparr>pivot := Some (set_rotation_y
                  (e_y (rotation p) + orbitalSpeed (data obj) * Num (1 / 2)) p)\<rparr>
          else obj)"

definition animatePlanet :: "celestialObject \<Rightarrow> celestialObject" where
  "animatePlanet obj = orbit (spin obj)"

text \<open>The \<^verbatim>\<open>isTheo\<close> branch of \<^verbatim>\<open>part_000\<close>.\<close>

definition theoPosition :: "jsval \<Rightarrow> vector3" where
  "theoPosition elapsedTime =
     (let orbitRadiusX = Num 300; orbitRadiusZ = Num 200; speed = Num (1 / 10);
          tiltAngle = Math_PI / Num 6;
          angle = elapsedTime * speed;
          x = Math_cos angle * orbitRadiusX;
          z = Math_sin angle * orbitRadiusZ;
          y = Math_sin angle * orbitRadiusZ * Math_sin tiltAngle
      in Vector3 x y (z * Math_cos tiltAngle))"

definition animateTheo :: "vector3 \<Rightarrow> jsval \<Rightarrow> celestialObject \<Rightarrow> celestialObject" where
  "animateTheo cameraPosition elapsedTime obj =
     (let m1 = (mesh obj)\<lparr>position := theoPosition elapsedTime\<rparr>;
          m2 = set_rotation_z (e_z (rotation m1) + Num (5 / 1000)) m1
      in obj\<lparr>mesh := lookAt (parentMatrixWorld obj) cameraPosition m2\<rparr>)"

definition updateObject :: "vector3 \<Rightarrow> jsval \<Rightarrow> celestialObject \<Rightarrow> celestialObject" where
  "updateObject cameraPosition elapsedTime obj =
     (if isTheo obj then animateTheo cameraPosition elapsedTime obj else animatePlanet obj)"

text \<open>
  After the loop, \<^verbatim>\<open>animate\<close> calls \<^verbatim>\<open>controls.update()\<close> and renders.
  Both belong to the library. Rendering writes no field of the state. The controls move
  the camera and their target only in answer to pointer input; the model covers frames
  with no pointer input pending, where \<^verbatim>\<open>update()\<close> leaves both as they are.
\<close>

definition controls_update :: "state \<Rightarrow> state" where
  "controls_update s = s"

text \<open>
  One frame of \<^verbatim>\<open>script.js\<close>; \<open>delta\<close> is what \<^verbatim>\<open>clock.getDelta()\<close>
  returned (the script reads it and never uses it).
\<close>

definition animate_script :: "real \<Rightarrow> state \<Rightarrow> state" where
  "animate_script delta s =
     controls_update (s\<lparr>celestialObjects := map animatePlanet (celestialObjects s)\<rparr>)"

text \<open>
  One frame of \<^verbatim>\<open>part_000\<close>; the pair is what \<^verbatim>\<open>clock.getDelta()\<close> and
  \<^verbatim>\<open>clock.getElapsedTime()\<close> returned.
\<close>

definition animate :: "real \<times> real \<Rightarrow> state \<Rightarrow> state" where
  "animate clock s =
     controls_update
       (s\<lparr>celestialObjects :=
            map (updateObject (camera_position s) (Num (snd clock))) (celestialObjects s)\<rparr>)"

text \<open>
  \<^verbatim>\<open>requestAnimationFrame(animate)\<close>: one call of \<^verbatim>\<open>animate\<close> per display
  refresh, each with its own clock readings.
\<close>

fun frames_script :: "real list \<Rightarrow> state \<Rightarrow> state" where
  "frames_script [] s = s"
| "frames_script (delta # deltas) s = frames_script deltas (animate_script delta s)"

fun frames :: "(real \<times> real) list \<Rightarrow> state \<Rightarrow> state" where
  "frames [] s = s"
| "frames (clock # clocks) s = frames clocks (animate clock s)"

subsection \<open>Focus and resize\<close>

text \<open>
  \<^verbatim>\<open>focusOnObject(mesh)\<close> of \<^verbatim>\<open>part_000\<close>. The click listeners pass the mesh
  of one of the built bodies; \<open>i\<close> is that body's index in \<^verbatim>\<open>celestialObjects\<close>.
  \<^verbatim>\<open>getWorldPosition\<close> writes the shared vector \<^verbatim>\<open>targetPosition\<close>, and
  \<^verbatim>\<open>controls.target.copy\<close> copies its three components.
\<close>

definition focusOnObject :: "nat \<Rightarrow> state \<Rightarrow> state" where
  "focusOnObject i s =
     (if i < length (celestialObjects s)
      then (let t = getWorldPosition (celestialObjects s ! i)
            in s\<lparr>targetPosition := t,
                 controls_target := Vector3 (v_x t) (v_y t) (v_z t)\<rparr>)
      else s)"

text \<open>The \<^verbatim>\<open>resize\<close> listeners of the two scripts.\<close>

definition resize_script :: "nat \<Rightarrow> nat \<Rightarrow> real \<Rightarrow> state \<Rightarrow> state" where
  "resize_script innerWidth innerHeight devicePixelRatio s =
     s\<lparr>camera_aspect := Num (real innerWidth) / Num (real innerHeight),
       renderer_size := (Num (real innerWidth), Num (real innerHeight)),
       renderer_pixelRatio := Num devicePixelRatio\<rparr>"

definition resize :: "nat \<Rightarrow> nat \<Rightarrow> real \<Rightarrow> state \<Rightarrow> state" where
  "resize innerWidth innerHeight devicePixelRatio s =
     s\<lparr>camera_aspect := Num (real innerWidth) / Num (real innerHeight),
       renderer_size := (Num (real innerWidth), Num (real innerHeight)),
       renderer_pixelRatio := Num devicePixelRatio,
       labelRenderer_size := Some (Num (real innerWidth), Num (real innerHeight))\<rparr>"

section \<open>Facts about the arithmetic and the library\<close>

lemma jsval_arith [simp]:
  "Num a + Num b = Num (a + b)"
  "Num a - Num b = Num (a - b)"
  "Num a * Num b = Num (a * b)"
  "- Num a = Num (- a)"
  "b \<noteq> 0 \<Longrightarrow> Num a / Num b = Num (a / b)"
  by (simp_all add: plus_jsval_def minus_jsval_def times_jsval_def uminus_jsval_def
      divide_jsval_def)

lemma Math_simps [simp]:
  "Math_cos (Num a) = Num (cos a)"
  "Math_sin (Num a) = Num (sin a)"
  by (simp_all add: Math_cos_def Math_sin_def)

lemma setFromEuler_y:
  "setFromEuler (Euler (Num 0) (Num t) (Num 0)) =
     Quaternion (Num 0) (Num (sin (t / 2))) (Num 0) (Num (cos (t / 2)))"
  by (simp add: setFromEuler_def Let_def)

lemma te_multiplyMatrices:
  "te12 (multiplyMatrices a b) = te0 a * te12 b + te4 a * te13 b + te8 a * te14 b + te12 a * te15 b"
  "te13 (multiplyMatrices a b) = te1 a * te12 b + te5 a * te13 b + te9 a * te14 b + te13 a * te15 b"
  "te14 (multiplyMatrices a b) = te2 a * te12 b + te6 a * te13 b + te10 a * te14 b + te14 a * te15 b"
  "te15 (multiplyMatrices a b) = te3 a * te12 b + te7 a * te13 b + te11 a * te14 b + te15 a * te15 b"
  by (cases a; cases b; simp)+

lemma te_compose:
  "te12 (compose p q s) = v_x p" "te13 (compose p q s) = v_y p"
  "te14 (compose p q s) = v_z p" "te15 (compose p q s) = Num 1"
  by (simp_all add: compose_def Let_def)

lemma sceneMatrixWorld_eq:
  "sceneMatrixWorld = Matrix4 (Num 1) (Num 0) (Num 0) (Num 0) (Num 0) (Num 1) (Num 0) (Num 0)
      (Num 0) (Num 0) (Num 1) (Num 0) (Num 0) (Num 0) (Num 0) (Num 1)"
  by (simp add: sceneMatrixWorld_def updateMatrix_def newObject3D_def compose_def Let_def)

lemma pivot_world:
  "worldMatrix sceneMatrixWorld
     \<lparr>position = Vector3 (Num 0) (Num 0) (Num 0), rotation = e,
      quaternion = Quaternion (Num 0) (Num (sin (t / 2))) (Num 0) (Num (cos (t / 2))),
      scale = Vector3 (Num 1) (Num 1) (Num 1), up = u\<rparr> =
   Matrix4 (Num (cos t)) (Num 0) (Num (- sin t)) (Num 0) (Num 0) (Num 1) (Num 0) (Num 0)
      (Num (sin t)) (Num 0) (Num (cos t)) (Num 0) (Num 0) (Num 0) (Num 0) (Num 1)"
proof -
  have c: "cos t = 1 - 2 * (sin (t / 2))\<^sup>2"
    using cos_double_sin [of "t / 2"] by simp
  have s: "sin t = 2 * sin (t / 2) * cos (t / 2)"
    using sin_double [of "t / 2"] by simp
  show ?thesis
    by (simp add: worldMatrix_def sceneMatrixWorld_eq updateMatrix_def compose_def c s
        power2_eq_square Let_def mult.commute)
qed

lemma set_rotation_y_fields [simp]:
  "position (set_rotation_y a obj) = position obj"
  "scale (set_rotation_y a obj) = scale obj"
  "up (set_rotation_y a obj) = up obj"
  "e_x (rotation (set_rotation_y a obj)) = e_x (rotation obj)"
  "e_y (rotation (set_rotation_y a obj)) = a"
  "e_z (rotation (set_rotation_y a obj)) = e_z (rotation obj)"
  "quaternion (set_rotation_y a obj) = setFromEuler (rotation (set_rotation_y a obj))"
  by (simp_all add: set_rotation_y_def set_rotation_def)

lemma set_rotation_y_twice [simp]:
  "set_rotation_y a (set_rotation_y b obj) = set_rotation_y a obj"
  by (simp add: set_rotation_y_def set_rotation_def)

lemma newObject3D_as_rotation: "set_rotation_y (Num 0) newObject3D = newObject3D"
  by (simp add: set_rotation_y_def set_rotation_def newObject3D_def setFromEuler_y)

lemma set_rotation_y_newObject3D:
  "set_rotation_y (Num t) newObject3D =
     \<lparr>position = Vector3 (Num 0) (Num 0) (Num 0), rotation = Euler (Num 0) (Num t) (Num 0),
      quaternion = Quaternion (Num 0) (Num (sin (t / 2))) (Num 0) (Num (cos (t / 2))),
      scale = Vector3 (Num 1) (Num 1) (Num 1), up = Vector3 (Num 0) (Num 1) (Num 0)\<rparr>"
  by (simp add: set_rotation_y_def set_rotation_def newObject3D_def setFromEuler_y)

lemma set_rotation_z_fields [simp]:
  "position (set_rotation_z a obj) = position obj"
  "scale (set_rotation_z a obj) = scale obj"
  "up (set_rotation_z a obj) = up obj"
  by (simp_all add: set_rotation_z_def set_rotation_def)

lemma set_quaternion_fields [simp]:
  "position (set_quaternion q obj) = position obj"
  "scale (set_quaternion q obj) = scale obj"
  "up (set_quaternion q obj) = up obj"
  "quaternion (set_quaternion q obj) = q"
  "rotation (set_quaternion q obj) = setFromQuaternion q"
  by (simp_all add: set_quaternion_def)

lemma lookAt_fields [simp]:
  "position (lookAt pw target obj) = position obj"
  "scale (lookAt pw target obj) = scale obj"
  "up (lookAt pw target obj) = up obj"
  by (simp_all add: lookAt_def Let_def)

lemma lookAt_cong:
  assumes "position a = position b" "scale a = scale b" "up a = up b"
  shows "lookAt pw target a = lookAt pw target b"
proof -
  have "setFromMatrixPosition (worldMatrix pw a) = setFromMatrixPosition (worldMatrix pw b)"
    using assms
    by (simp add: setFromMatrixPosition_def worldMatrix_def updateMatrix_def
        te_multiplyMatrices te_compose)
  then show ?thesis
    using assms
    by (intro object3D.equality) (simp_all add: lookAt_def Let_def set_quaternion_def)
qed

section \<open>Facts about the planet branch and the frames\<close>

text \<open>
  What one frame does to an entry of the planet branch, what \<open>n\<close> frames do, and that
  a run of frames acts on each entry that is not the decorative one as the iterated
  planet branch.
\<close>

lemma spin_fields [simp]:
  "data (spin obj) = data obj" "isTheo (spin obj) = isTheo obj"
  "pivot (spin obj) = pivot obj" "position (mesh (spin obj)) = position (mesh obj)"
  by (simp_all add: spin_def)

lemma orbit_fields [simp]:
  "data (orbit obj) = data obj" "isTheo (orbit obj) = isTheo obj"
  "mesh (orbit obj) = mesh obj"
  by (simp_all add: orbit_def split: option.split)

lemma animatePlanet_fields [simp]:
  "data (animatePlanet obj) = data obj" "isTheo (animatePlanet obj) = isTheo obj"
  "position (mesh (animatePlanet obj)) = position (mesh obj)"
  by (simp_all add: animatePlanet_def)

lemma animatePlanet_spin:
  "rotationSpeed (data obj) = Num r \<Longrightarrow> e_y (rotation (mesh obj)) = Num a \<Longrightarrow>
   e_y (rotation (mesh (animatePlanet obj))) = Num (a + r)"
  by (simp add: animatePlanet_def spin_def)

lemma animatePlanet_pivot_None:
  "pivot obj = None \<Longrightarrow> pivot (animatePlanet obj) = None"
  by (simp add: animatePlanet_def orbit_def)

lemma animatePlanet_pivot:
  "pivot obj = Some p \<Longrightarrow> orbitalSpeed (data obj) = Num w \<Longrightarrow> e_y (rotation p) = Num b \<Longrightarrow>
   pivot (animatePlanet obj) = Some (set_rotation_y (Num (b + w * (1 / 2))) p)
     \<or> (w = 0 \<and> pivot (animatePlanet obj) = Some p)"
  by (simp add: animatePlanet_def orbit_def)

lemma funpow_animatePlanet_fields [simp]:
  "data ((animatePlanet ^^ n) obj) = data obj"
  "isTheo ((animatePlanet ^^ n) obj) = isTheo obj"
  "position (mesh ((animatePlanet ^^ n) obj)) = position (mesh obj)"
  by (induction n) simp_all

lemma funpow_animatePlanet_spin:
  "rotationSpeed (data obj) = Num r \<Longrightarrow> e_y (rotation (mesh obj)) = Num a \<Longrightarrow>
   e_y (rotation (mesh ((animatePlanet ^^ n) obj))) = Num (a + real n * r)"
  by (induction n) (simp_all add: animatePlanet_spin algebra_simps)

lemma funpow_animatePlanet_pivot_None:
  "pivot obj = None \<Longrightarrow> pivot ((animatePlanet ^^ n) obj) = None"
  by (induction n) (simp_all add: animatePlanet_pivot_None)

lemma funpow_animatePlanet_pivot:
  assumes "pivot obj = Some p" "orbitalSpeed (data obj) = Num w" "e_y (rotation p) = Num b"
  shows "\<exists>p'. pivot ((animatePlanet ^^ n) obj) = Some p' \<and>
          e_y (rotation p') = Num (b + real n * (w * (1 / 2))) \<and>
          (p' = p \<or> p' = set_rotation_y (Num (b + real n * (w * (1 / 2)))) p)"
proof (induction n)
  case 0
  show ?case using assms by simp
next
  case (Suc n)
  then obtain p' where p': "pivot ((animatePlanet ^^ n) obj) = Some p'"
    "e_y (rotation p') = Num (b + real n * (w * (1 / 2)))"
    "p' = p \<or> p' = set_rotation_y (Num (b + real n * (w * (1 / 2)))) p"
    by blast
  have w: "orbitalSpeed (data ((animatePlanet ^^ n) obj)) = Num w"
    using assms by simp
  have eq: "b + real n * (w * (1 / 2)) + w * (1 / 2) = b + real (Suc n) * (w * (1 / 2))"
    by (simp add: algebra_simps)
  from animatePlanet_pivot [OF p'(1) w p'(2)] show ?case
  proof
    assume a: "pivot (animatePlanet ((animatePlanet ^^ n) obj)) =
      Some (set_rotation_y (Num (b + real n * (w * (1 / 2)) + w * (1 / 2))) p')"
    show ?thesis using p'(3) a unfolding eq by auto
  next
    assume a: "w = 0 \<and> pivot (animatePlanet ((animatePlanet ^^ n) obj)) = Some p'"
    then show ?thesis using p' by auto
  qed
qed

lemma controls_update_id [simp]: "controls_update s = s"
  by (simp add: controls_update_def)

lemma animate_frame [simp]:
  "camera_position (animate c s) = camera_position s"
  "camera_aspect (animate c s) = camera_aspect s"
  "renderer_size (animate c s) = renderer_size s"
  "renderer_pixelRatio (animate c s) = renderer_pixelRatio s"
  "labelRenderer_size (animate c s) = labelRenderer_size s"
  "controls_target (animate c s) = controls_target s"
  "targetPosition (animate c s) = targetPosition s"
  "length (celestialObjects (animate c s)) = length (celestialObjects s)"
  by (simp_all add: animate_def)

lemma animate_script_frame [simp]:
  "camera_position (animate_script d s) = camera_position s"
  "camera_aspect (animate_script d s) = camera_aspect s"
  "renderer_size (animate_script d s) = renderer_size s"
  "renderer_pixelRatio (animate_script d s) = renderer_pixelRatio s"
  "labelRenderer_size (animate_script d s) = labelRenderer_size s"
  "controls_target (animate_script d s) = controls_target s"
  "targetPosition (animate_script d s) = targetPosition s"
  "length (celestialObjects (animate_script d s)) = length (celestialObjects s)"
  by (simp_all add: animate_script_def)

lemma frames_frame [simp]:
  "camera_position (frames cs s) = camera_position s"
  "camera_aspect (frames cs s) = camera_aspect s"
  "renderer_size (frames cs s) = renderer_size s"
  "renderer_pixelRatio (frames cs s) = renderer_pixelRatio s"
  "labelRenderer_size (frames cs s) = labelRenderer_size s"
  "controls_target (frames cs s) = controls_target s"
  "targetPosition (frames cs s) = targetPosition s"
  "length (celestialObjects (frames cs s)) = length (celestialObjects s)"
  by (induction cs arbitrary: s; simp)+

lemma frames_script_frame [simp]:
  "camera_position (frames_script ds s) = camera_position s"
  "camera_aspect (frames_script ds s) = camera_aspect s"
  "renderer_size (frames_script ds s) = renderer_size s"
  "renderer_pixelRatio (frames_script ds s) = renderer_pixelRatio s"
  "labelRenderer_size (frames_script ds s) = labelRenderer_size s"
  "controls_target (frames_script ds s) = controls_target s"
  "targetPosition (frames_script ds s) = targetPosition s"
  "length (celestialObjects (frames_script ds s)) = length (celestialObjects s)"
  by (induction ds arbitrary: s; simp)+

lemma animate_nth_planet:
  "i < length (celestialObjects s) \<Longrightarrow> \<not> isTheo (celestialObjects s ! i) \<Longrightarrow>
   celestialObjects (animate c s) ! i = animatePlanet (celestialObjects s ! i)"
  by (simp add: animate_def updateObject_def)

lemma animate_script_nth:
  "i < length (celestialObjects s) \<Longrightarrow>
   celestialObjects (animate_script d s) ! i = animatePlanet (celestialObjects s ! i)"
  by (simp add: animate_script_def)

lemma frames_nth_planet:
  "i < length (celestialObjects s) \<Longrightarrow> \<not> isTheo (celestialObjects s ! i) \<Longrightarrow>
   celestialObjects (frames cs s) ! i = (animatePlanet ^^ length cs) (celestialObjects s ! i)"
proof (induction cs arbitrary: s)
  case Nil
  then show ?case by simp
next
  case (Cons c cs)
  have "celestialObjects (frames cs (animate c s)) ! i =
      (animatePlanet ^^ length cs) (celestialObjects (animate c s) ! i)"
    using Cons.prems by (intro Cons.IH) (simp_all add: animate_nth_planet)
  then show ?case
    using Cons.prems by (simp add: animate_nth_planet funpow_swap1)
qed

lemma frames_script_nth:
  "i < length (celestialObjects s) \<Longrightarrow>
   celestialObjects (frames_script ds s) ! i = (animatePlanet ^^ length ds) (celestialObjects s ! i)"
proof (induction ds arbitrary: s)
  case Nil
  then show ?case by simp
next
  case (Cons d ds)
  have "celestialObjects (frames_script ds (animate_script d s)) ! i =
      (animatePlanet ^^ length ds) (celestialObjects (animate_script d s) ! i)"
    using Cons.prems by (intro Cons.IH) simp
  then show ?case
    using Cons.prems by (simp add: animate_script_nth funpow_swap1)
qed

lemma orbit_pivot_position [simp]:
  "map_option position (pivot (orbit obj)) = map_option position (pivot obj)"
  by (simp add: orbit_def split: option.split)

lemma animatePlanet_pivot_position [simp]:
  "map_option position (pivot (animatePlanet obj)) = map_option position (pivot obj)"
  by (simp add: animatePlanet_def)

lemma funpow_animatePlanet_pivot_position [simp]:
  "map_option position (pivot ((animatePlanet ^^ n) obj)) = map_option position (pivot obj)"
  by (induction n) simp_all

lemma animatePlanet_pivot_falsy:
  "\<not> truthy (orbitalSpeed (data obj)) \<Longrightarrow> pivot (animatePlanet obj) = pivot obj"
  by (simp add: animatePlanet_def orbit_def split: option.split)

lemma funpow_animatePlanet_pivot_falsy:
  "\<not> truthy (orbitalSpeed (data obj)) \<Longrightarrow> pivot ((animatePlanet ^^ n) obj) = pivot obj"
  by (induction n) (simp_all add: animatePlanet_pivot_falsy)

section \<open>Facts about the builder\<close>

lemma createCelestialBodies_map:
  "createCelestialBodies v ds objs = objs @ map (createBody v) ds"
  by (induction ds arbitrary: objs) simp_all

lemma buildScene_eq:
  "buildScene v ds = Inr (map (createBody v) ds @ (case v of Script_js \<Rightarrow> [] | Part_000 \<Rightarrow> [createTheo]))"
  by (simp add: buildScene_def createCelestialBodies_map split: variant.split)

lemma startup_eq:
  "startup v W H dpr ds = Inr ((basicSetup v W H dpr)\<lparr>celestialObjects :=
     map (createBody v) ds @ (case v of Script_js \<Rightarrow> [] | Part_000 \<Rightarrow> [createTheo])\<rparr>)"
  by (simp add: startup_def buildScene_eq)

lemma createBody_fields [simp]:
  "data (createBody v d) = d"
  "isTheo (createBody v d) = False"
  "rotation (mesh (createBody v d)) = Euler (Num 0) (Num 0) (Num 0)"
  "pivot (createBody v d) = (if isSun d then None else Some newObject3D)"
  "position (mesh (createBody v d)) =
     (if isSun d then Vector3 (Num 0) (Num 0) (Num 0)
      else Vector3 (orbitalRadius d) (Num 0) (Num 0))"
  by (simp_all add: createBody_def newObject3D_def)

lemma startup_objects:
  assumes "startup v W H dpr ds = Inr s" "i < length ds"
  shows "i < length (celestialObjects s)" "celestialObjects s ! i = createBody v (ds ! i)"
  using assms by (auto simp: startup_def buildScene_eq nth_append split: variant.splits)

lemma startup_all_objects:
  assumes "startup v W H dpr ds = Inr s" "i < length (celestialObjects s)"
  shows "(i < length ds \<and> celestialObjects s ! i = createBody v (ds ! i)) \<or>
         (i = length ds \<and> v = Part_000 \<and> celestialObjects s ! i = createTheo)"
  using assms
  by (cases "i < length ds")
    (auto simp: startup_def buildScene_eq nth_append less_Suc_eq split: variant.splits)

lemma startup_spinning:
  assumes "startup v W H dpr ds = Inr s" "i < length (celestialObjects s)"
    "rotationSpeed (data (celestialObjects s ! i)) = Num r"
  shows "\<not> isTheo (celestialObjects s ! i)"
    "e_y (rotation (mesh (celestialObjects s ! i))) = Num 0"
  using startup_all_objects [OF assms(1,2)] assms(3)
  by (auto simp: createTheo_def theoData_def)

lemma startup_orbiting:
  assumes "startup v W H dpr ds = Inr s" "i < length (celestialObjects s)"
    "orbitalSpeed (data (celestialObjects s ! i)) = Num w"
    "\<not> isSun (data (celestialObjects s ! i))"
  shows "\<not> isTheo (celestialObjects s ! i)"
    "pivot (celestialObjects s ! i) = Some newObject3D"
  using startup_all_objects [OF assms(1,2)] assms(3,4)
  by (auto simp: createTheo_def theoData_def)

section \<open>Facts about world positions\<close>

text \<open>
  The world position of a mesh at the scene root, and of a mesh on a pivot turned by
  \<open>t\<close> about its \<open>y\<close> axis: the offset \<open>(R, 0, 0)\<close> goes to \<open>(R \<cdot> cos t, 0, - R \<cdot> sin t)\<close>.
\<close>

lemma getWorldPosition_root:
  assumes "pivot obj = None" "position (mesh obj) = Vector3 (Num a) (Num b) (Num c)"
  shows "getWorldPosition obj = Vector3 (Num a) (Num b) (Num c)"
  using assms
  by (simp add: getWorldPosition_def parentMatrixWorld_def worldMatrix_def
      setFromMatrixPosition_def te_multiplyMatrices updateMatrix_def te_compose
      sceneMatrixWorld_eq)

lemma getWorldPosition_orbiting:
  assumes "pivot obj = Some (set_rotation_y (Num t) newObject3D)"
    and "position (mesh obj) = Vector3 (Num R) (Num 0) (Num 0)"
  shows "getWorldPosition obj = Vector3 (Num (R * cos t)) (Num 0) (Num (- (R * sin t)))"
  using assms
  by (simp add: getWorldPosition_def parentMatrixWorld_def set_rotation_y_newObject3D
      pivot_world worldMatrix_def [of _ "mesh obj"] setFromMatrixPosition_def
      te_multiplyMatrices updateMatrix_def te_compose mult.commute)

lemma built_pivot:
  assumes "\<not> isSun d"
  shows "\<exists>t. pivot ((animatePlanet ^^ n) (createBody v d)) =
            Some (set_rotation_y (Num t) newObject3D) \<and>
          (\<forall>w. orbitalSpeed d = Num w \<longrightarrow> t = real n * (w * (1 / 2)))"
proof (cases "orbitalSpeed d")
  case (Num w)
  have p: "pivot (createBody v d) = Some newObject3D"
    using assms by simp
  have w: "orbitalSpeed (data (createBody v d)) = Num w"
    using Num by simp
  have b: "e_y (rotation newObject3D) = Num 0"
    by (simp add: newObject3D_def)
  obtain p' where p': "pivot ((animatePlanet ^^ n) (createBody v d)) = Some p'"
    "e_y (rotation p') = Num (0 + real n * (w * (1 / 2)))"
    "p' = newObject3D \<or> p' = set_rotation_y (Num (0 + real n * (w * (1 / 2)))) newObject3D"
    using funpow_animatePlanet_pivot [OF p w b, of n] by blast
  have "p' = set_rotation_y (Num (real n * (w * (1 / 2)))) newObject3D"
    using p'(2,3) b newObject3D_as_rotation by auto
  then show ?thesis
    using p'(1) Num by auto
next
  case Undefined
  then have "pivot ((animatePlanet ^^ n) (createBody v d)) = Some (set_rotation_y (Num 0) newObject3D)"
    using assms by (simp add: funpow_animatePlanet_pivot_falsy newObject3D_as_rotation)
  then show ?thesis
    using Undefined by auto
next
  case NaN
  then have "pivot ((animatePlanet ^^ n) (createBody v d)) = Some (set_rotation_y (Num 0) newObject3D)"
    using assms by (simp add: funpow_animatePlanet_pivot_falsy newObject3D_as_rotation)
  then show ?thesis
    using NaN by auto
qed

lemma built_planet_world:
  assumes "\<not> isSun d" "orbitalRadius d = Num R"
  shows "\<exists>t. pivot ((animatePlanet ^^ n) (createBody v d)) =
            Some (set_rotation_y (Num t) newObject3D) \<and>
          (\<forall>w. orbitalSpeed d = Num w \<longrightarrow> t = real n * (w * (1 / 2))) \<and>
          getWorldPosition ((animatePlanet ^^ n) (createBody v d)) =
            Vector3 (Num (R * cos t)) (Num 0) (Num (- (R * sin t)))"
proof -
  obtain t where t: "pivot ((animatePlanet ^^ n) (createBody v d)) =
      Some (set_rotation_y (Num t) newObject3D)"
    "\<forall>w. orbitalSpeed d = Num w \<longrightarrow> t = real n * (w * (1 / 2))"
    using built_pivot [OF assms(1)] by blast
  have "position (mesh ((animatePlanet ^^ n) (createBody v d))) = Vector3 (Num R) (Num 0) (Num 0)"
    using assms by simp
  from getWorldPosition_orbiting [OF t(1) this] t show ?thesis
    by blast
qed

lemma startup_planet_frames:
  assumes "startup v W H dpr ds = Inr s0" "j < length ds"
  shows "celestialObjects (frames clocks s0) ! j =
           (animatePlanet ^^ length clocks) (createBody v (ds ! j))"
    and "celestialObjects (frames_script deltas s0) ! j =
           (animatePlanet ^^ length deltas) (createBody v (ds ! j))"
proof -
  have l: "j < length (celestialObjects s0)"
    and o: "celestialObjects s0 ! j = createBody v (ds ! j)"
    using startup_objects [OF assms] by blast+
  show "celestialObjects (frames clocks s0) ! j =
      (animatePlanet ^^ length clocks) (createBody v (ds ! j))"
    using frames_nth_planet [OF l, of clocks] by (simp add: o)
  show "celestialObjects (frames_script deltas s0) ! j =
      (animatePlanet ^^ length deltas) (createBody v (ds ! j))"
    using frames_script_nth [OF l, of deltas] by (simp add: o)
qed

section \<open>Facts about the decorative entity and the focus\<close>

lemma theoPosition_Num:
  "theoPosition (Num t) =
     Vector3 (Num (cos (t * (1 / 10)) * 300))
             (Num (sin (t * (1 / 10)) * 200 * sin (pi / 6)))
             (Num (sin (t * (1 / 10)) * 200 * cos (pi / 6)))"
  by (simp add: theoPosition_def Math_PI_def Let_def)

lemma animateTheo_position [simp]:
  "position (mesh (animateTheo cam t obj)) = theoPosition t"
  by (simp add: animateTheo_def Let_def)

lemma animateTheo_prior_free:
  "animateTheo cam t (obj\<lparr>mesh := (mesh obj)\<lparr>position := p, rotation := e, quaternion := q\<rparr>\<rparr>) =
   animateTheo cam t obj"
proof -
  have "lookAt pw cam (set_rotation_z a1 (m1\<lparr>position := p'\<rparr>)) =
        lookAt pw cam (set_rotation_z a2 (m2\<lparr>position := p'\<rparr>))"
    if "scale m1 = scale m2" "up m1 = up m2" for pw a1 a2 m1 m2 p'
    using that by (intro lookAt_cong) simp_all
  from this [of "(mesh obj)\<lparr>position := p, rotation := e, quaternion := q\<rparr>" "mesh obj"]
  show ?thesis
    by (simp add: animateTheo_def Let_def parentMatrixWorld_def)
qed

lemma animateTheo_shape:
  "\<exists>p e q. animateTheo cam t obj =
     obj\<lparr>mesh := (mesh obj)\<lparr>position := p, rotation := e, quaternion := q\<rparr>\<rparr>"
proof -
  have "lookAt pw cam m =
      m\<lparr>rotation := rotation (lookAt pw cam m), quaternion := quaternion (lookAt pw cam m)\<rparr>"
    for pw m
    by (simp add: lookAt_def set_quaternion_def Let_def)
  then have "\<exists>e q. lookAt pw cam m = m\<lparr>rotation := e, quaternion := q\<rparr>" for pw m
    by blast
  then obtain e q where
    "lookAt (parentMatrixWorld obj) cam
       (set_rotation_z (e_z (rotation ((mesh obj)\<lparr>position := theoPosition t\<rparr>)) + Num (5 / 1000))
          ((mesh obj)\<lparr>position := theoPosition t\<rparr>)) =
     (set_rotation_z (e_z (rotation ((mesh obj)\<lparr>position := theoPosition t\<rparr>)) + Num (5 / 1000))
          ((mesh obj)\<lparr>position := theoPosition t\<rparr>))\<lparr>rotation := e, quaternion := q\<rparr>"
    by blast
  then have "animateTheo cam t obj =
     obj\<lparr>mesh := (mesh obj)\<lparr>position := theoPosition t, rotation := e, quaternion := q\<rparr>\<rparr>"
    by (simp add: animateTheo_def Let_def set_rotation_z_def set_rotation_def)
  then show ?thesis by blast
qed

lemma animate_nth_theo:
  "i < length (celestialObjects s) \<Longrightarrow> isTheo (celestialObjects s ! i) \<Longrightarrow>
   celestialObjects (animate c s) ! i =
     animateTheo (camera_position s) (Num (snd c)) (celestialObjects s ! i)"
  by (simp add: animate_def updateObject_def)

lemma frames_nth_theo:
  "i < length (celestialObjects s) \<Longrightarrow> isTheo (celestialObjects s ! i) \<Longrightarrow>
   \<exists>p e q. celestialObjects (frames cs s) ! i =
     (celestialObjects s ! i)\<lparr>mesh := (mesh (celestialObjects s ! i))
        \<lparr>position := p, rotation := e, quaternion := q\<rparr>\<rparr>"
proof (induction cs arbitrary: s)
  case Nil
  have "celestialObjects s ! i = (celestialObjects s ! i)\<lparr>mesh := (mesh (celestialObjects s ! i))
      \<lparr>position := position (mesh (celestialObjects s ! i)),
       rotation := rotation (mesh (celestialObjects s ! i)),
       quaternion := quaternion (mesh (celestialObjects s ! i))\<rparr>\<rparr>"
    by simp
  then show ?case
    unfolding frames.simps by blast
next
  case (Cons c cs)
  let ?o = "celestialObjects s ! i"
  obtain p e q where a: "celestialObjects (animate c s) ! i =
      ?o\<lparr>mesh := (mesh ?o)\<lparr>position := p, rotation := e, quaternion := q\<rparr>\<rparr>"
    using animateTheo_shape [of "camera_position s" "Num (snd c)" ?o] Cons.prems
    by (auto simp: animate_nth_theo)
  have "\<exists>p' e' q'. celestialObjects (frames cs (animate c s)) ! i =
     (celestialObjects (animate c s) ! i)\<lparr>mesh := (mesh (celestialObjects (animate c s) ! i))
        \<lparr>position := p', rotation := e', quaternion := q'\<rparr>\<rparr>"
    using Cons.prems by (intro Cons.IH) (simp_all add: a)
  then show ?case
    by (auto simp: a)
qed

lemma focusOnObject_fields [simp]:
  "celestialObjects (focusOnObject i s) = celestialObjects s"
  "camera_position (focusOnObject i s) = camera_position s"
  by (simp_all add: focusOnObject_def Let_def)

lemma focusOnObject_target:
  "i < length (celestialObjects s) \<Longrightarrow>
   controls_target (focusOnObject i s) = getWorldPosition (celestialObjects s ! i)"
  by (simp add: focusOnObject_def Let_def)

section \<open>Bounds on the sines and cosines of the scenarios\<close>

text \<open>
  Taylor polynomials with the remainder bounds of the library give the decimals that the
  scenarios of the specification quote.
\<close>

lemma lessThan_8: "{..<8::nat} = {0, 1, 2, 3, 4, 5, 6, 7}"
  by auto

lemma lessThan_9: "{..<9::nat} = {0, 1, 2, 3, 4, 5, 6, 7, 8}"
  by auto

lemma sin_taylor7: "\<bar>sin x - (x - x ^ 3 / 6 + x ^ 5 / 120 - x ^ 7 / 5040)\<bar> \<le> \<bar>x\<bar> ^ 9 / 362880" for x :: real
proof -
  have s: "(\<Sum>m<9. sin_coeff m * x ^ m) = x - x ^ 3 / 6 + x ^ 5 / 120 - x ^ 7 / 5040"
    unfolding lessThan_9 by (simp add: sin_coeff_def fact_numeral)
  have "\<bar>sin x - (\<Sum>m<9. sin_coeff m * x ^ m)\<bar> \<le> inverse (fact 9) * \<bar>x\<bar> ^ 9"
    by (rule Maclaurin_sin_bound)
  also have "inverse (fact 9) * \<bar>x\<bar> ^ 9 = \<bar>x\<bar> ^ 9 / 362880"
    by (simp add: fact_numeral)
  finally show ?thesis
    unfolding s .
qed

lemma cos_taylor6: "\<bar>cos x - (1 - x ^ 2 / 2 + x ^ 4 / 24 - x ^ 6 / 720)\<bar> \<le> \<bar>x\<bar> ^ 8 / 40320" for x :: real
proof -
  obtain t where t: "cos x = (\<Sum>m<8. cos_coeff m * x ^ m) + (cos (t + 1 / 2 * real (8::nat) * pi) / fact 8) * x ^ 8"
    using Maclaurin_cos_expansion [of x 8] by blast
  have s: "(\<Sum>m<8. cos_coeff m * x ^ m) = 1 - x ^ 2 / 2 + x ^ 4 / 24 - x ^ 6 / 720"
    unfolding lessThan_8 by (simp add: cos_coeff_def fact_numeral)
  have f: "fact 8 = (40320::real)"
    by (simp add: fact_numeral)
  have "\<bar>cos x - (1 - x ^ 2 / 2 + x ^ 4 / 24 - x ^ 6 / 720)\<bar> = \<bar>cos (t + 1 / 2 * real (8::nat) * pi)\<bar> * \<bar>x\<bar> ^ 8 / 40320"
    unfolding t s f by (simp add: abs_mult power_abs)
  also have "\<dots> \<le> 1 * \<bar>x\<bar> ^ 8 / 40320"
    by (intro divide_right_mono mult_right_mono) simp_all
  finally show ?thesis by simp
qed

lemma cos_three_quarters: "8780 / 12000 < cos (3 / 4 :: real)" "cos (3 / 4 :: real) < 8781 / 12000"
proof -
  have b: "\<bar>cos (3 / 4 :: real) - 239759 / 327680\<bar> \<le> 729 / 293601280"
    using cos_taylor6 [of "3 / 4"] by (simp add: power_divide)
  show "8780 / 12000 < cos (3 / 4 :: real)"
    using b by linarith
  show "cos (3 / 4 :: real) < 8781 / 12000"
    using b by linarith
qed

lemma sin_three_quarters: "8179 / 12000 < sin (3 / 4 :: real)" "sin (3 / 4 :: real) < 8180 / 12000"
proof -
  have b: "\<bar>sin (3 / 4 :: real) - 6254061 / 9175040\<bar> \<le> 243 / 1174405120"
    using sin_taylor7 [of "3 / 4"] by (simp add: power_divide)
  show "8179 / 12000 < sin (3 / 4 :: real)"
    using b by linarith
  show "sin (3 / 4 :: real) < 8180 / 12000"
    using b by linarith
qed

lemma sin_one: "8414 / 10000 < sin (1 :: real)" "sin (1 :: real) < 841472 / 1000000"
proof -
  have b: "\<bar>sin (1 :: real) - 4241 / 5040\<bar> \<le> 1 / 362880"
    using sin_taylor7 [of 1] by simp
  show "8414 / 10000 < sin (1 :: real)"
    using b by linarith
  show "sin (1 :: real) < 841472 / 1000000"
    using b by linarith
qed

lemma cos_one: "54025 / 100000 < cos (1 :: real)" "cos (1 :: real) < 54031 / 100000"
proof -
  have b: "\<bar>cos (1 :: real) - 389 / 720\<bar> \<le> 1 / 40320"
    using cos_taylor6 [of 1] by simp
  show "54025 / 100000 < cos (1 :: real)"
    using b by linarith
  show "cos (1 :: real) < 54031 / 100000"
    using b by linarith
qed

lemma sqrt3_bounds: "17320 / 10000 < sqrt (3::real)" "sqrt (3::real) < 173206 / 100000"
proof -
  show "17320 / 10000 < sqrt (3::real)"
    by (rule real_less_rsqrt) (simp add: power2_eq_square)
  show "sqrt (3::real) < 173206 / 100000"
    by (rule real_less_lsqrt) (simp_all add: power2_eq_square)
qed

lemma scenario_earth_bounds:
  "\<bar>120 * cos (3 / 4) - 878 / 10\<bar> < (5 / 100 :: real)"
  "\<bar>- (120 * sin (3 / 4)) - (- 818 / 10)\<bar> < (5 / 100 :: real)"
  using cos_three_quarters sin_three_quarters by linarith+

lemma scenario_theo_bounds:
  "\<bar>cos 1 * 300 - 1621 / 10\<bar> < (5 / 100 :: real)"
  "\<bar>sin 1 * 200 * sin (pi / 6) - 841 / 10\<bar> < (5 / 100 :: real)"
  "\<bar>sin 1 * 200 * cos (pi / 6) - 1457 / 10\<bar> < (5 / 100 :: real)"
proof -
  show "\<bar>cos 1 * 300 - 1621 / 10\<bar> < (5 / 100 :: real)"
    using cos_one by linarith
  show "\<bar>sin 1 * 200 * sin (pi / 6) - 841 / 10\<bar> < (5 / 100 :: real)"
    using sin_one by (simp add: sin_30)
  have l: "sin 1 * sqrt 3 > 8414 / 10000 * (17320 / 10000 :: real)"
    using sin_one(1) sqrt3_bounds(1) by (intro mult_strict_mono) simp_all
  have u: "sin 1 * sqrt 3 < 841472 / 1000000 * (173206 / 100000 :: real)"
    using sin_one sqrt3_bounds by (intro mult_strict_mono) simp_all
  have "sin 1 * 200 * cos (pi / 6) = 100 * (sin 1 * sqrt (3 :: real))"
    by (simp add: cos_30)
  then show "\<bar>sin 1 * 200 * cos (pi / 6) - 1457 / 10\<bar> < (5 / 100 :: real)"
    using l u by linarith
qed

lemma cos_small_distinct: "cos (3 / 200 :: real) \<noteq> cos (3 / 400)"
proof
  assume e: "cos (3 / 200 :: real) = cos (3 / 400)"
  have b: "(3 / 200 :: real) \<le> pi" "(3 / 400 :: real) \<le> pi"
    using pi_ge_two by linarith+
  have "(3 / 200 :: real) = 3 / 400"
    using cos_inj_pi [OF _ b(1) _ b(2) e] by simp
  then show False by simp
qed

section \<open>Facts about the orientation that lookAt sets\<close>

text \<open>
  What \<^verbatim>\<open>lookAt\<close> writes, and its value for a mesh at \<open>(300, 0, 0)\<close> under the
  scene that looks at a camera at \<open>(700, 0, 0)\<close>: a quarter turn about the \<open>y\<close> axis,
  which takes the local \<open>z\<close> axis to the direction of the camera.
\<close>

lemma animateTheo_mesh:
  "mesh (animateTheo cam t obj) =
     lookAt (parentMatrixWorld obj) cam ((mesh obj)\<lparr>position := theoPosition t\<rparr>)"
  by (simp add: animateTheo_def Let_def) (intro lookAt_cong; simp)

lemma lookAt_orientation:
  "quaternion (lookAt pw target obj) =
     multiplyQuaternions (invert (setFromRotationMatrix (extractRotation pw)))
       (setFromRotationMatrix
          (matrix_lookAt target (setFromMatrixPosition (worldMatrix pw obj)) (up obj)))"
  "rotation (lookAt pw target obj) = setFromQuaternion (quaternion (lookAt pw target obj))"
  by (simp_all add: lookAt_def Let_def)

lemma sqrt_4: "sqrt (4::real) = 2"
  by (rule real_sqrt_unique) simp_all

lemma scene_rotation_inverse:
  "invert (setFromRotationMatrix (extractRotation sceneMatrixWorld)) =
     Quaternion (Num 0) (Num 0) (Num 0) (Num 1)"
  by (simp add: sceneMatrixWorld_eq extractRotation_def vector_length_def lengthSq_def
      setFromRotationMatrix_def js_greater_def invert_def Let_def sqrt_4)

lemma worldPosition_at_root:
  "position m = Vector3 (Num a) (Num b) (Num c) \<Longrightarrow>
   setFromMatrixPosition (worldMatrix sceneMatrixWorld m) = Vector3 (Num a) (Num b) (Num c)"
  by (simp add: setFromMatrixPosition_def worldMatrix_def updateMatrix_def
      te_multiplyMatrices te_compose sceneMatrixWorld_eq)

lemma sqrt_160000: "sqrt (160000::real) = 400"
  by (rule real_sqrt_unique) simp_all

lemma subVectors_along_x: "subVectors (Vector3 (Num 700) (Num 0) (Num 0)) (Vector3 (Num 300) (Num 0) (Num 0)) =
   Vector3 (Num 400) (Num 0) (Num 0)"
  by (simp add: subVectors_def)

lemma normalize_along_x: "normalize (Vector3 (Num 400) (Num 0) (Num 0)) = Vector3 (Num 1) (Num 0) (Num 0)"
  by (simp add: normalize_def vector_length_def lengthSq_def divideScalar_def multiplyScalar_def
      js_or_def sqrt_160000)

lemma normalize_unit_z: "normalize (Vector3 (Num 0) (Num 0) (Num (- 1))) = Vector3 (Num 0) (Num 0) (Num (- 1))"
  by (simp add: normalize_def vector_length_def lengthSq_def divideScalar_def multiplyScalar_def
      js_or_def)

lemma crossVectors_up_x: "crossVectors (Vector3 (Num 0) (Num 1) (Num 0)) (Vector3 (Num 1) (Num 0) (Num 0)) =
   Vector3 (Num 0) (Num 0) (Num (- 1))"
  by (simp add: crossVectors_def)

lemma crossVectors_x_z: "crossVectors (Vector3 (Num 1) (Num 0) (Num 0)) (Vector3 (Num 0) (Num 0) (Num (- 1))) =
   Vector3 (Num 0) (Num 1) (Num 0)"
  by (simp add: crossVectors_def)

lemma matrix_lookAt_along_x:
  "matrix_lookAt (Vector3 (Num 700) (Num 0) (Num 0)) (Vector3 (Num 300) (Num 0) (Num 0))
     (Vector3 (Num 0) (Num 1) (Num 0)) =
   Matrix4 (Num 0) (Num 0) (Num (- 1)) (Num 0)
           (Num 0) (Num 1) (Num 0) (Num 0)
           (Num 1) (Num 0) (Num 0) (Num 0)
           (Num 0) (Num 0) (Num 0) (Num 1)"
proof -
  have a: "lengthSq (Vector3 (Num 400) (Num 0) (Num 0)) = Num 160000"
    "lengthSq (Vector3 (Num 0) (Num 0) (Num (- 1))) = Num 1"
    by (simp_all add: lengthSq_def)
  show ?thesis
    by (simp add: matrix_lookAt_def Let_def subVectors_along_x a normalize_along_x crossVectors_up_x normalize_unit_z crossVectors_x_z)
qed

lemma quaternion_quarter_turn:
  "setFromRotationMatrix
     (Matrix4 (Num 0) (Num 0) (Num (- 1)) (Num 0)
           (Num 0) (Num 1) (Num 0) (Num 0)
           (Num 1) (Num 0) (Num 0) (Num 0)
           (Num 0) (Num 0) (Num 0) (Num 1)) =
   Quaternion (Num 0) (Num (1 / sqrt 2)) (Num 0) (Num (sqrt 2 / 2))"
  by (simp add: setFromRotationMatrix_def js_greater_def Let_def)

section \<open>The claims\<close>

text \<open>
  Claim C1 gives the world position of a body at pivot angle \<open>\<theta>\<close> as
  \<open>(orbitalRadius \<cdot> cos \<theta>, 0, orbitalRadius \<cdot> sin \<theta>)\<close>, and for the scenario after
  100 frames \<open>X \<approx> 87.9\<close>, \<open>Z \<approx> 81.8\<close>. A rotation of the pivot about its \<open>y\<close> axis by
  \<open>\<theta>\<close> takes the offset \<open>(orbitalRadius, 0, 0)\<close> to a negative \<open>z\<close>: for the fourth
  entry of the table (\<open>orbitalRadius = 120\<close>, \<open>orbitalSpeed = 0.015\<close>) after 100 frames
  of \<^verbatim>\<open>script.js\<close> the world position is \<open>(120 \<cdot> cos 0.75, 0, - 120 \<cdot> sin 0.75)\<close>,
  which is not the claimed vector; \<open>Z\<close> is below \<open>-81.79\<close>, and \<open>X\<close> is below \<open>87.81\<close>.
\<close>

theorem C1_counterexample:
  "getWorldPosition (celestialObjects
      (frames_script (replicate 100 (1 / 60))
         (projr (startup Script_js 800 600 1 solarSystemData))) ! 3) =
     Vector3 (Num (120 * cos (3 / 4))) (Num 0) (Num (- (120 * sin (3 / 4)))) \<and>
   getWorldPosition (celestialObjects
      (frames_script (replicate 100 (1 / 60))
         (projr (startup Script_js 800 600 1 solarSystemData))) ! 3) \<noteq>
     Vector3 (Num (120 * cos (3 / 4))) (Num 0) (Num (120 * sin (3 / 4))) \<and>
   - (120 * sin (3 / 4)) < (- 8179 / 100 :: real) \<and>
   120 * cos (3 / 4) < (8781 / 100 :: real)"
proof -
  let ?s = "projr (startup Script_js 800 600 1 solarSystemData)"
  let ?d = "planet ''Earth'' (45 / 10) 4620980 120 (15 / 1000) (2 / 100) False"
  have s: "startup Script_js 800 600 1 solarSystemData = Inr ?s"
    by (simp add: startup_eq)
  have j: "3 < length solarSystemData" "solarSystemData ! 3 = ?d"
    by (simp_all add: solarSystemData_def)
  have d: "\<not> isSun ?d" "orbitalRadius ?d = Num 120" "orbitalSpeed ?d = Num (15 / 1000)"
    by (simp_all add: planet_def)
  have o: "celestialObjects (frames_script (replicate 100 (1 / 60)) ?s) ! 3 =
      (animatePlanet ^^ 100) (createBody Script_js ?d)"
    using startup_planet_frames(2) [OF s j(1), of "replicate 100 (1 / 60)"] by (simp add: j(2))
  obtain t where t: "\<forall>w. orbitalSpeed ?d = Num w \<longrightarrow> t = real (100::nat) * (w * (1 / 2))"
    "getWorldPosition ((animatePlanet ^^ 100) (createBody Script_js ?d)) =
       Vector3 (Num (120 * cos t)) (Num 0) (Num (- (120 * sin t)))"
    using built_planet_world [OF d(1,2), of 100 Script_js] by blast
  have "t = real (100::nat) * (15 / 1000 * (1 / 2))"
    using t(1) d(3) by blast
  then have t34: "t = 3 / 4"
    by simp
  have w: "getWorldPosition (celestialObjects (frames_script (replicate 100 (1 / 60)) ?s) ! 3) =
      Vector3 (Num (120 * cos (3 / 4))) (Num 0) (Num (- (120 * sin (3 / 4))))"
    using t(2) unfolding o t34 .
  have p: "(0::real) < sin (3 / 4)"
    using sin_three_quarters(1) by linarith
  show ?thesis
    using w p sin_three_quarters cos_three_quarters by simp
qed

text \<open>
  Claim C1, as the scripts have it. A body that is not central and has the orbital
  radius \<open>R\<close> is, when its pivot's angle is \<open>\<theta>\<close>, at the world position
  \<open>(R \<cdot> cos \<theta>, 0, - R \<cdot> sin \<theta>)\<close>: for any \<open>\<theta>\<close> assigned to the pivot of the entry as
  built, and in every state that the frames of either script reach. For a descriptor
  with \<open>orbitalRadius = 120\<close> and \<open>orbitalSpeed = 0.015\<close>, after 100 frames the pivot
  angle is \<open>0.75\<close> and the world position is \<open>(120 \<cdot> cos 0.75, 0, - 120 \<cdot> sin 0.75)\<close>,
  with \<open>X\<close> within \<open>0.05\<close> of \<open>87.8\<close> and \<open>Z\<close> within \<open>0.05\<close> of \<open>-81.8\<close>.
\<close>

theorem C1_world_position_on_orbit:
  "(\<not> isSun d \<and> orbitalRadius d = Num R \<longrightarrow>
      getWorldPosition
        ((createBody v d)\<lparr>pivot := Some (set_rotation_y (Num \<theta>) newObject3D)\<rparr>) =
        Vector3 (Num (R * cos \<theta>)) (Num 0) (Num (- (R * sin \<theta>)))) \<and>
   (startup v innerWidth innerHeight devicePixelRatio ds = Inr s0 \<and> j < length ds \<and>
    \<not> isSun (ds ! j) \<and> orbitalRadius (ds ! j) = Num R \<longrightarrow>
      (\<exists>p t. pivot (celestialObjects (frames clocks s0) ! j) = Some p \<and>
         e_y (rotation p) = Num t \<and>
         getWorldPosition (celestialObjects (frames clocks s0) ! j) =
           Vector3 (Num (R * cos t)) (Num 0) (Num (- (R * sin t)))) \<and>
      (\<exists>p t. pivot (celestialObjects (frames_script deltas s0) ! j) = Some p \<and>
         e_y (rotation p) = Num t \<and>
         getWorldPosition (celestialObjects (frames_script deltas s0) ! j) =
           Vector3 (Num (R * cos t)) (Num 0) (Num (- (R * sin t))))) \<and>
   (startup v innerWidth innerHeight devicePixelRatio ds = Inr s0 \<and> j < length ds \<and>
    \<not> isSun (ds ! j) \<and> orbitalRadius (ds ! j) = Num 120 \<and>
    orbitalSpeed (ds ! j) = Num (15 / 1000) \<and> length clocks = 100 \<and> length deltas = 100 \<longrightarrow>
      (\<exists>p. pivot (celestialObjects (frames clocks s0) ! j) = Some p \<and>
         e_y (rotation p) = Num (3 / 4)) \<and>
      getWorldPosition (celestialObjects (frames clocks s0) ! j) =
        Vector3 (Num (120 * cos (3 / 4))) (Num 0) (Num (- (120 * sin (3 / 4)))) \<and>
      (\<exists>p. pivot (celestialObjects (frames_script deltas s0) ! j) = Some p \<and>
         e_y (rotation p) = Num (3 / 4)) \<and>
      getWorldPosition (celestialObjects (frames_script deltas s0) ! j) =
        Vector3 (Num (120 * cos (3 / 4))) (Num 0) (Num (- (120 * sin (3 / 4))))) \<and>
   \<bar>120 * cos (3 / 4) - 878 / 10\<bar> < (5 / 100 :: real) \<and>
   \<bar>- (120 * sin (3 / 4)) - (- 818 / 10)\<bar> < (5 / 100 :: real)"
proof (intro conjI impI)
  assume "\<not> isSun d \<and> orbitalRadius d = Num R"
  then show "getWorldPosition
        ((createBody v d)\<lparr>pivot := Some (set_rotation_y (Num \<theta>) newObject3D)\<rparr>) =
        Vector3 (Num (R * cos \<theta>)) (Num 0) (Num (- (R * sin \<theta>)))"
    by (intro getWorldPosition_orbiting) simp_all
next
  assume h: "startup v innerWidth innerHeight devicePixelRatio ds = Inr s0 \<and> j < length ds \<and>
    \<not> isSun (ds ! j) \<and> orbitalRadius (ds ! j) = Num R"
  then have d: "\<not> isSun (ds ! j)" "orbitalRadius (ds ! j) = Num R"
    by simp_all
  have o: "celestialObjects (frames clocks s0) ! j =
      (animatePlanet ^^ length clocks) (createBody v (ds ! j))"
    "celestialObjects (frames_script deltas s0) ! j =
      (animatePlanet ^^ length deltas) (createBody v (ds ! j))"
    using h startup_planet_frames by blast+
  show "\<exists>p t. pivot (celestialObjects (frames clocks s0) ! j) = Some p \<and>
         e_y (rotation p) = Num t \<and>
         getWorldPosition (celestialObjects (frames clocks s0) ! j) =
           Vector3 (Num (R * cos t)) (Num 0) (Num (- (R * sin t)))"
    using built_planet_world [OF d, of "length clocks" v] unfolding o by force
  show "\<exists>p t. pivot (celestialObjects (frames_script deltas s0) ! j) = Some p \<and>
         e_y (rotation p) = Num t \<and>
         getWorldPosition (celestialObjects (frames_script deltas s0) ! j) =
           Vector3 (Num (R * cos t)) (Num 0) (Num (- (R * sin t)))"
    using built_planet_world [OF d, of "length deltas" v] unfolding o by force
next
  assume h: "startup v innerWidth innerHeight devicePixelRatio ds = Inr s0 \<and> j < length ds \<and>
    \<not> isSun (ds ! j) \<and> orbitalRadius (ds ! j) = Num 120 \<and>
    orbitalSpeed (ds ! j) = Num (15 / 1000) \<and> length clocks = 100 \<and> length deltas = 100"
  then have d: "\<not> isSun (ds ! j)" "orbitalRadius (ds ! j) = Num 120"
    and w: "orbitalSpeed (ds ! j) = Num (15 / 1000)"
    and n: "length clocks = 100" "length deltas = 100"
    by simp_all
  have o: "celestialObjects (frames clocks s0) ! j =
      (animatePlanet ^^ 100) (createBody v (ds ! j))"
    "celestialObjects (frames_script deltas s0) ! j =
      (animatePlanet ^^ 100) (createBody v (ds ! j))"
    using h startup_planet_frames [of v innerWidth innerHeight devicePixelRatio ds s0 j] n
    by simp_all
  obtain t where t: "pivot ((animatePlanet ^^ 100) (createBody v (ds ! j))) =
      Some (set_rotation_y (Num t) newObject3D)"
    "\<forall>w. orbitalSpeed (ds ! j) = Num w \<longrightarrow> t = real (100::nat) * (w * (1 / 2))"
    "getWorldPosition ((animatePlanet ^^ 100) (createBody v (ds ! j))) =
       Vector3 (Num (120 * cos t)) (Num 0) (Num (- (120 * sin t)))"
    using built_planet_world [OF d, of 100 v] by blast
  have "t = real (100::nat) * (15 / 1000 * (1 / 2))"
    using t(2) w by blast
  then have t34: "t = 3 / 4"
    by simp
  show "\<exists>p. pivot (celestialObjects (frames clocks s0) ! j) = Some p \<and>
      e_y (rotation p) = Num (3 / 4)"
    using t(1) unfolding o t34 by simp
  show "getWorldPosition (celestialObjects (frames clocks s0) ! j) =
      Vector3 (Num (120 * cos (3 / 4))) (Num 0) (Num (- (120 * sin (3 / 4))))"
    using t(3) unfolding o t34 by simp
  show "\<exists>p. pivot (celestialObjects (frames_script deltas s0) ! j) = Some p \<and>
      e_y (rotation p) = Num (3 / 4)"
    using t(1) unfolding o t34 by simp
  show "getWorldPosition (celestialObjects (frames_script deltas s0) ! j) =
      Vector3 (Num (120 * cos (3 / 4))) (Num 0) (Num (- (120 * sin (3 / 4))))"
    using t(3) unfolding o t34 by simp
next
  show "\<bar>120 * cos (3 / 4) - 878 / 10\<bar> < (5 / 100 :: real)"
    by (rule scenario_earth_bounds)
  show "\<bar>- (120 * sin (3 / 4)) - (- 818 / 10)\<bar> < (5 / 100 :: real)"
    by (rule scenario_earth_bounds)
qed

theorem C1_witness:
  "(3::nat) < length solarSystemData \<and> \<not> isSun (solarSystemData ! 3) \<and>
   orbitalRadius (solarSystemData ! 3) = Num 120 \<and>
   orbitalSpeed (solarSystemData ! 3) = Num (15 / 1000) \<and>
   length (replicate 100 (1 / 60 :: real, 1 :: real)) = 100 \<and>
   (\<exists>p. pivot (celestialObjects (frames (replicate 100 (1 / 60, 1))
         (projr (startup Part_000 800 600 1 solarSystemData))) ! 3) = Some p \<and>
       e_y (rotation p) = Num (3 / 4)) \<and>
   getWorldPosition (celestialObjects (frames (replicate 100 (1 / 60, 1))
         (projr (startup Part_000 800 600 1 solarSystemData))) ! 3) =
     Vector3 (Num (120 * cos (3 / 4))) (Num 0) (Num (- (120 * sin (3 / 4))))"
proof -
  let ?s = "projr (startup Part_000 800 600 1 solarSystemData)"
  have s: "startup Part_000 800 600 1 solarSystemData = Inr ?s"
    by (simp add: startup_eq)
  have l: "(3::nat) < length solarSystemData" "\<not> isSun (solarSystemData ! 3)"
    "orbitalRadius (solarSystemData ! 3) = Num 120"
    "orbitalSpeed (solarSystemData ! 3) = Num (15 / 1000)"
    by (simp_all add: solarSystemData_def planet_def)
  have n: "length (replicate 100 (1 / 60 :: real, 1 :: real)) = 100"
    "length (replicate 100 (1 / 60 :: real)) = 100"
    by simp_all
  show ?thesis
    using C1_world_position_on_orbit [where v = Part_000 and innerWidth = 800
        and innerHeight = 600 and devicePixelRatio = 1 and ds = solarSystemData
        and ?s0.0 = ?s and j = 3 and clocks = "replicate 100 (1 / 60, 1)"
        and deltas = "replicate 100 (1 / 60)", THEN conjunct2, THEN conjunct2, THEN conjunct1]
      s l n
    by blast
qed

text \<open>
  Claim C2. A body whose descriptor has a rotation speed \<open>r\<close> has, after \<open>N\<close> frames,
  the self-rotation angle \<open>a + N \<cdot> r\<close>, where \<open>a\<close> is the angle before the first of
  them: one fixed increment per frame, whatever the clock read on those frames. The
  equality is exact, so it holds modulo \<open>2\<pi>\<close> as well. The first half is about any
  state of the program (in \<^verbatim>\<open>part_000\<close> the entry must not be the decorative one,
  which has no rotation speed); the second half is about the state the scripts build,
  where every angle starts at \<open>0\<close>.
\<close>

theorem C2_self_rotation_counts_frames:
  "(i < length (celestialObjects s) \<and>
    rotationSpeed (data (celestialObjects s ! i)) = Num r \<and>
    e_y (rotation (mesh (celestialObjects s ! i))) = Num a \<longrightarrow>
      e_y (rotation (mesh (celestialObjects (frames_script deltas s) ! i))) =
        Num (a + real (length deltas) * r) \<and>
      (\<not> isTheo (celestialObjects s ! i) \<longrightarrow>
        e_y (rotation (mesh (celestialObjects (frames clocks s) ! i))) =
          Num (a + real (length clocks) * r))) \<and>
   (startup v innerWidth innerHeight devicePixelRatio ds = Inr s0 \<and>
    j < length (celestialObjects s0) \<and>
    rotationSpeed (data (celestialObjects s0 ! j)) = Num r \<longrightarrow>
      e_y (rotation (mesh (celestialObjects (frames_script deltas s0) ! j))) =
        Num (0 + real (length deltas) * r) \<and>
      e_y (rotation (mesh (celestialObjects (frames clocks s0) ! j))) =
        Num (0 + real (length clocks) * r))"
proof (intro conjI impI)
  assume h: "i < length (celestialObjects s) \<and>
    rotationSpeed (data (celestialObjects s ! i)) = Num r \<and>
    e_y (rotation (mesh (celestialObjects s ! i))) = Num a"
  then show "e_y (rotation (mesh (celestialObjects (frames_script deltas s) ! i))) =
      Num (a + real (length deltas) * r)"
    by (simp add: frames_script_nth funpow_animatePlanet_spin)
  assume "\<not> isTheo (celestialObjects s ! i)"
  with h show "e_y (rotation (mesh (celestialObjects (frames clocks s) ! i))) =
      Num (a + real (length clocks) * r)"
    by (simp add: frames_nth_planet funpow_animatePlanet_spin)
next
  assume h: "startup v innerWidth innerHeight devicePixelRatio ds = Inr s0 \<and>
    j < length (celestialObjects s0) \<and>
    rotationSpeed (data (celestialObjects s0 ! j)) = Num r"
  then have t: "\<not> isTheo (celestialObjects s0 ! j)"
    and a: "e_y (rotation (mesh (celestialObjects s0 ! j))) = Num 0"
    using startup_spinning by blast+
  show "e_y (rotation (mesh (celestialObjects (frames_script deltas s0) ! j))) =
      Num (0 + real (length deltas) * r)"
    using h a by (simp add: frames_script_nth funpow_animatePlanet_spin)
  show "e_y (rotation (mesh (celestialObjects (frames clocks s0) ! j))) =
      Num (0 + real (length clocks) * r)"
    using h a t by (simp add: frames_nth_planet funpow_animatePlanet_spin)
qed

theorem C2_witness:
  "3 < length (celestialObjects (projr (startup Part_000 800 600 1 solarSystemData))) \<and>
   rotationSpeed (data (celestialObjects (projr (startup Part_000 800 600 1 solarSystemData)) ! 3)) = Num (2 / 100) \<and>
   e_y (rotation (mesh (celestialObjects (projr (startup Part_000 800 600 1 solarSystemData)) ! 3))) = Num 0 \<and>
   \<not> isTheo (celestialObjects (projr (startup Part_000 800 600 1 solarSystemData)) ! 3) \<and>
   e_y (rotation (mesh (celestialObjects
     (frames_script [1 / 60, 1 / 30, 1 / 144] (projr (startup Part_000 800 600 1 solarSystemData))) ! 3))) = Num (6 / 100) \<and>
   e_y (rotation (mesh (celestialObjects
     (frames [(1 / 60, 1 / 60), (1 / 30, 1 / 20), (1 / 144, 41 / 720)] (projr (startup Part_000 800 600 1 solarSystemData))) ! 3))) = Num (6 / 100)"
proof -
  let ?s = "projr (startup Part_000 800 600 1 solarSystemData)"
  have s: "startup Part_000 800 600 1 solarSystemData = Inr ?s"
    by (simp add: startup_eq)
  have o: "celestialObjects ?s ! 3 = createBody Part_000 (planet ''Earth'' (45 / 10) 4620980 120 (15 / 1000) (2 / 100) False)"
    by (simp add: startup_eq solarSystemData_def)
  have l: "3 < length (celestialObjects ?s)"
    by (simp add: startup_eq solarSystemData_def)
  have r: "rotationSpeed (data (celestialObjects ?s ! 3)) = Num (2 / 100)"
    by (simp add: o planet_def)
  have a: "e_y (rotation (mesh (celestialObjects ?s ! 3))) = Num 0"
    by (simp add: o)
  have t: "\<not> isTheo (celestialObjects ?s ! 3)"
    by (simp add: o)
  show ?thesis
    using C2_self_rotation_counts_frames [of 3 ?s "2 / 100" 0 "[1 / 60, 1 / 30, 1 / 144]"
        "[(1 / 60, 1 / 60), (1 / 30, 1 / 20), (1 / 144, 41 / 720)]"] l r a t
    by simp
qed

text \<open>
  Claim C3. A body with a pivot whose descriptor has an orbital speed \<open>w\<close> has, after
  \<open>N\<close> frames, the pivot angle \<open>b + N \<cdot> (w \<cdot> 0.5)\<close>, where \<open>b\<close> is the pivot's angle
  before the first of them. The equality is exact, so it holds modulo \<open>2\<pi>\<close> as well.
  The first half is about any state of the program, the second about the state the
  scripts build, where every body that is not central has a pivot at angle \<open>0\<close>.
\<close>

theorem C3_pivot_angle_counts_frames:
  "(i < length (celestialObjects s) \<and>
    pivot (celestialObjects s ! i) = Some p \<and>
    orbitalSpeed (data (celestialObjects s ! i)) = Num w \<and>
    e_y (rotation p) = Num b \<longrightarrow>
      (\<exists>p'. pivot (celestialObjects (frames_script deltas s) ! i) = Some p' \<and>
            e_y (rotation p') = Num (b + real (length deltas) * (w * (1 / 2)))) \<and>
      (\<not> isTheo (celestialObjects s ! i) \<longrightarrow>
        (\<exists>p'. pivot (celestialObjects (frames clocks s) ! i) = Some p' \<and>
              e_y (rotation p') = Num (b + real (length clocks) * (w * (1 / 2)))))) \<and>
   (startup v innerWidth innerHeight devicePixelRatio ds = Inr s0 \<and>
    j < length (celestialObjects s0) \<and>
    \<not> isSun (data (celestialObjects s0 ! j)) \<and>
    orbitalSpeed (data (celestialObjects s0 ! j)) = Num w \<longrightarrow>
      (\<exists>p'. pivot (celestialObjects (frames_script deltas s0) ! j) = Some p' \<and>
            e_y (rotation p') = Num (0 + real (length deltas) * (w * (1 / 2)))) \<and>
      (\<exists>p'. pivot (celestialObjects (frames clocks s0) ! j) = Some p' \<and>
            e_y (rotation p') = Num (0 + real (length clocks) * (w * (1 / 2)))))"
proof (intro conjI impI)
  assume h: "i < length (celestialObjects s) \<and>
    pivot (celestialObjects s ! i) = Some p \<and>
    orbitalSpeed (data (celestialObjects s ! i)) = Num w \<and>
    e_y (rotation p) = Num b"
  then have *: "pivot (celestialObjects s ! i) = Some p"
    "orbitalSpeed (data (celestialObjects s ! i)) = Num w" "e_y (rotation p) = Num b"
    by simp_all
  show "\<exists>p'. pivot (celestialObjects (frames_script deltas s) ! i) = Some p' \<and>
      e_y (rotation p') = Num (b + real (length deltas) * (w * (1 / 2)))"
    using funpow_animatePlanet_pivot [OF *, of "length deltas"] h
    by (auto simp: frames_script_nth)
  assume "\<not> isTheo (celestialObjects s ! i)"
  then show "\<exists>p'. pivot (celestialObjects (frames clocks s) ! i) = Some p' \<and>
      e_y (rotation p') = Num (b + real (length clocks) * (w * (1 / 2)))"
    using funpow_animatePlanet_pivot [OF *, of "length clocks"] h
    by (auto simp: frames_nth_planet)
next
  assume h: "startup v innerWidth innerHeight devicePixelRatio ds = Inr s0 \<and>
    j < length (celestialObjects s0) \<and>
    \<not> isSun (data (celestialObjects s0 ! j)) \<and>
    orbitalSpeed (data (celestialObjects s0 ! j)) = Num w"
  then have t: "\<not> isTheo (celestialObjects s0 ! j)"
    and p: "pivot (celestialObjects s0 ! j) = Some newObject3D"
    using startup_orbiting by blast+
  have w: "orbitalSpeed (data (celestialObjects s0 ! j)) = Num w"
    using h by simp
  have b: "e_y (rotation newObject3D) = Num 0"
    by (simp add: newObject3D_def)
  show "\<exists>p'. pivot (celestialObjects (frames_script deltas s0) ! j) = Some p' \<and>
      e_y (rotation p') = Num (0 + real (length deltas) * (w * (1 / 2)))"
    using funpow_animatePlanet_pivot [OF p w b, of "length deltas"] h
    by (auto simp: frames_script_nth)
  show "\<exists>p'. pivot (celestialObjects (frames clocks s0) ! j) = Some p' \<and>
      e_y (rotation p') = Num (0 + real (length clocks) * (w * (1 / 2)))"
    using funpow_animatePlanet_pivot [OF p w b, of "length clocks"] h t
    by (auto simp: frames_nth_planet)
qed

theorem C3_witness:
  "3 < length (celestialObjects (projr (startup Part_000 800 600 1 solarSystemData))) \<and>
   \<not> isSun (data (celestialObjects (projr (startup Part_000 800 600 1 solarSystemData)) ! 3)) \<and>
   orbitalSpeed (data (celestialObjects (projr (startup Part_000 800 600 1 solarSystemData)) ! 3)) = Num (15 / 1000) \<and>
   (\<exists>p'. pivot (celestialObjects
      (frames_script [1 / 60, 1 / 30, 1 / 144] (projr (startup Part_000 800 600 1 solarSystemData))) ! 3) = Some p' \<and>
      e_y (rotation p') = Num (225 / 10000)) \<and>
   (\<exists>p'. pivot (celestialObjects
      (frames [(1 / 60, 1 / 60), (1 / 30, 1 / 20), (1 / 144, 41 / 720)] (projr (startup Part_000 800 600 1 solarSystemData))) ! 3) = Some p' \<and>
      e_y (rotation p') = Num (225 / 10000))"
proof -
  let ?s = "projr (startup Part_000 800 600 1 solarSystemData)"
  have s: "startup Part_000 800 600 1 solarSystemData = Inr ?s"
    by (simp add: startup_eq)
  have o: "celestialObjects ?s ! 3 = createBody Part_000 (planet ''Earth'' (45 / 10) 4620980 120 (15 / 1000) (2 / 100) False)"
    by (simp add: startup_eq solarSystemData_def)
  have l: "3 < length (celestialObjects ?s)"
    by (simp add: startup_eq solarSystemData_def)
  have r: "orbitalSpeed (data (celestialObjects ?s ! 3)) = Num (15 / 1000)"
    by (simp add: o planet_def)
  have u: "\<not> isSun (data (celestialObjects ?s ! 3))"
    by (simp add: o planet_def)
  show ?thesis
    using C3_pivot_angle_counts_frames [where v = Part_000 and innerWidth = 800
        and innerHeight = 600 and devicePixelRatio = 1 and ds = solarSystemData
        and ?s0.0 = ?s and j = 3 and w = "15 / 1000" and deltas = "[1 / 60, 1 / 30, 1 / 144]"
        and clocks = "[(1 / 60, 1 / 60), (1 / 30, 1 / 20), (1 / 144, 41 / 720)]",
        THEN conjunct2] s l r u
    by simp
qed

text \<open>
  Claim C4. \<^verbatim>\<open>focusOnObject\<close> sets the target of the controls to the world
  position the mesh has at the call: the translation of the product of the world matrix
  of its parent (the scene, or the scene's times the pivot's) with the matrix of the
  mesh. It writes nothing of \<^verbatim>\<open>celestialObjects\<close>, and the frames after it leave
  the target at that value. For a body the script built that is not central, the
  captured value is \<open>(R \<cdot> cos t, 0, - R \<cdot> sin t)\<close> with \<open>t\<close> the pivot angle at the
  call.
\<close>

theorem C4_focus_captures_world_position:
  "(i < length (celestialObjects s) \<longrightarrow>
      controls_target (focusOnObject i s) = getWorldPosition (celestialObjects s ! i) \<and>
      getWorldPosition (celestialObjects s ! i) =
        setFromMatrixPosition
          (multiplyMatrices
             (case pivot (celestialObjects s ! i) of
                None \<Rightarrow> sceneMatrixWorld
              | Some p \<Rightarrow> multiplyMatrices sceneMatrixWorld (updateMatrix p))
             (updateMatrix (mesh (celestialObjects s ! i)))) \<and>
      celestialObjects (focusOnObject i s) = celestialObjects s \<and>
      controls_target (frames clocks' (focusOnObject i s)) =
        getWorldPosition (celestialObjects s ! i)) \<and>
   (startup v innerWidth innerHeight devicePixelRatio ds = Inr s0 \<and> j < length ds \<and>
    \<not> isSun (ds ! j) \<and> orbitalRadius (ds ! j) = Num R \<longrightarrow>
      (\<exists>p t. pivot (celestialObjects (frames clocks s0) ! j) = Some p \<and>
         e_y (rotation p) = Num t \<and>
         controls_target (frames clocks' (focusOnObject j (frames clocks s0))) =
           Vector3 (Num (R * cos t)) (Num 0) (Num (- (R * sin t)))))"
proof (intro conjI impI)
  assume l: "i < length (celestialObjects s)"
  then show "controls_target (focusOnObject i s) = getWorldPosition (celestialObjects s ! i)"
    by (rule focusOnObject_target)
  show "getWorldPosition (celestialObjects s ! i) =
        setFromMatrixPosition
          (multiplyMatrices
             (case pivot (celestialObjects s ! i) of
                None \<Rightarrow> sceneMatrixWorld
              | Some p \<Rightarrow> multiplyMatrices sceneMatrixWorld (updateMatrix p))
             (updateMatrix (mesh (celestialObjects s ! i))))"
    by (simp add: getWorldPosition_def parentMatrixWorld_def worldMatrix_def split: option.split)
  show "celestialObjects (focusOnObject i s) = celestialObjects s"
    by simp
  show "controls_target (frames clocks' (focusOnObject i s)) =
      getWorldPosition (celestialObjects s ! i)"
    using l by (simp add: focusOnObject_target)
next
  assume h: "startup v innerWidth innerHeight devicePixelRatio ds = Inr s0 \<and> j < length ds \<and>
    \<not> isSun (ds ! j) \<and> orbitalRadius (ds ! j) = Num R"
  then have d: "\<not> isSun (ds ! j)" "orbitalRadius (ds ! j) = Num R"
    by simp_all
  have "j < length (celestialObjects s0)"
    using h startup_objects(1) by blast
  then have l: "j < length (celestialObjects (frames clocks s0))"
    by simp
  have o: "celestialObjects (frames clocks s0) ! j =
      (animatePlanet ^^ length clocks) (createBody v (ds ! j))"
    using h startup_planet_frames by blast
  have c: "controls_target (frames clocks' (focusOnObject j (frames clocks s0))) =
      getWorldPosition (celestialObjects (frames clocks s0) ! j)"
    using l by (simp add: focusOnObject_target)
  obtain t where t: "pivot ((animatePlanet ^^ length clocks) (createBody v (ds ! j))) =
      Some (set_rotation_y (Num t) newObject3D)"
    "getWorldPosition ((animatePlanet ^^ length clocks) (createBody v (ds ! j))) =
       Vector3 (Num (R * cos t)) (Num 0) (Num (- (R * sin t)))"
    using built_planet_world [OF d, of "length clocks" v] by blast
  have "pivot (celestialObjects (frames clocks s0) ! j) = Some (set_rotation_y (Num t) newObject3D) \<and>
         e_y (rotation (set_rotation_y (Num t) newObject3D)) = Num t \<and>
         controls_target (frames clocks' (focusOnObject j (frames clocks s0))) =
           Vector3 (Num (R * cos t)) (Num 0) (Num (- (R * sin t)))"
    unfolding c o using t by simp
  then show "\<exists>p t. pivot (celestialObjects (frames clocks s0) ! j) = Some p \<and>
         e_y (rotation p) = Num t \<and>
         controls_target (frames clocks' (focusOnObject j (frames clocks s0))) =
           Vector3 (Num (R * cos t)) (Num 0) (Num (- (R * sin t)))"
    by blast
qed

theorem C4_witness:
  "(3::nat) < length (celestialObjects
      (frames [(1 / 60, 1 / 60)] (projr (startup Part_000 800 600 1 solarSystemData)))) \<and>
   controls_target
     (frames [(1 / 60, 1 / 30)]
        (focusOnObject 3
           (frames [(1 / 60, 1 / 60)] (projr (startup Part_000 800 600 1 solarSystemData))))) =
   getWorldPosition (celestialObjects
      (frames [(1 / 60, 1 / 60)] (projr (startup Part_000 800 600 1 solarSystemData))) ! 3) \<and>
   getWorldPosition (celestialObjects
      (frames [(1 / 60, 1 / 60)] (projr (startup Part_000 800 600 1 solarSystemData))) ! 3) =
     Vector3 (Num (120 * cos (3 / 400))) (Num 0) (Num (- (120 * sin (3 / 400)))) \<and>
   getWorldPosition (celestialObjects
     (frames [(1 / 60, 1 / 30)]
        (focusOnObject 3
           (frames [(1 / 60, 1 / 60)] (projr (startup Part_000 800 600 1 solarSystemData))))) ! 3) =
     Vector3 (Num (120 * cos (3 / 200))) (Num 0) (Num (- (120 * sin (3 / 200)))) \<and>
   getWorldPosition (celestialObjects
     (frames [(1 / 60, 1 / 30)]
        (focusOnObject 3
           (frames [(1 / 60, 1 / 60)] (projr (startup Part_000 800 600 1 solarSystemData))))) ! 3) \<noteq>
   controls_target
     (frames [(1 / 60, 1 / 30)]
        (focusOnObject 3
           (frames [(1 / 60, 1 / 60)] (projr (startup Part_000 800 600 1 solarSystemData)))))"
proof -
  let ?s = "projr (startup Part_000 800 600 1 solarSystemData)"
  let ?s1 = "frames [(1 / 60, 1 / 60)] ?s"
  let ?s2 = "frames [(1 / 60, 1 / 30)] (focusOnObject 3 ?s1)"
  let ?d = "planet ''Earth'' (45 / 10) 4620980 120 (15 / 1000) (2 / 100) False"
  have s: "startup Part_000 800 600 1 solarSystemData = Inr ?s"
    by (simp add: startup_eq)
  have j: "3 < length solarSystemData" "solarSystemData ! 3 = ?d"
    by (simp_all add: solarSystemData_def)
  have d: "\<not> isSun ?d" "orbitalRadius ?d = Num 120" "orbitalSpeed ?d = Num (15 / 1000)"
    by (simp_all add: planet_def)
  have l: "(3::nat) < length (celestialObjects ?s1)"
    by (simp add: startup_eq solarSystemData_def)
  have o1: "celestialObjects ?s1 ! 3 = (animatePlanet ^^ 1) (createBody Part_000 ?d)"
    using startup_planet_frames(1) [OF s j(1), of "[(1 / 60, 1 / 60)]"] by (simp add: j(2))
  have t3: "\<not> isTheo (celestialObjects (focusOnObject 3 ?s1) ! 3)"
    using o1 by simp
  have o2: "celestialObjects ?s2 ! 3 = (animatePlanet ^^ 2) (createBody Part_000 ?d)"
    using frames_nth_planet [of 3 "focusOnObject 3 ?s1" "[(1 / 60, 1 / 30)]"] l t3 o1
    by (simp add: numeral_2_eq_2)
  obtain t1 where t1: "\<forall>w. orbitalSpeed ?d = Num w \<longrightarrow> t1 = real (1::nat) * (w * (1 / 2))"
    "getWorldPosition ((animatePlanet ^^ 1) (createBody Part_000 ?d)) =
       Vector3 (Num (120 * cos t1)) (Num 0) (Num (- (120 * sin t1)))"
    using built_planet_world [OF d(1,2), of 1 Part_000] by blast
  have "t1 = real (1::nat) * (15 / 1000 * (1 / 2))"
    using t1(1) d(3) by blast
  then have e1: "t1 = 3 / 400"
    by simp
  obtain t2 where t2: "\<forall>w. orbitalSpeed ?d = Num w \<longrightarrow> t2 = real (2::nat) * (w * (1 / 2))"
    "getWorldPosition ((animatePlanet ^^ 2) (createBody Part_000 ?d)) =
       Vector3 (Num (120 * cos t2)) (Num 0) (Num (- (120 * sin t2)))"
    using built_planet_world [OF d(1,2), of 2 Part_000] by blast
  have "t2 = real (2::nat) * (15 / 1000 * (1 / 2))"
    using t2(1) d(3) by blast
  then have e2: "t2 = 3 / 200"
    by simp
  have w1: "getWorldPosition (celestialObjects ?s1 ! 3) =
      Vector3 (Num (120 * cos (3 / 400))) (Num 0) (Num (- (120 * sin (3 / 400))))"
    using t1(2) unfolding o1 e1 .
  have w2: "getWorldPosition (celestialObjects ?s2 ! 3) =
      Vector3 (Num (120 * cos (3 / 200))) (Num 0) (Num (- (120 * sin (3 / 200))))"
    using t2(2) unfolding o2 e2 .
  have c: "controls_target ?s2 = getWorldPosition (celestialObjects ?s1 ! 3)"
    using C4_focus_captures_world_position [where i = 3 and s = ?s1
        and clocks' = "[(1 / 60, 1 / 30)]", THEN conjunct1] l
    by blast
  have ne: "getWorldPosition (celestialObjects ?s2 ! 3) \<noteq> controls_target ?s2"
    unfolding c w1 w2 using cos_small_distinct by simp
  show ?thesis
    by (rule conjI [OF l conjI [OF c conjI [OF w1 conjI [OF w2 ne]]]])
qed

text \<open>
  Claim C5 says that the builder fails with \<open>InvalidDescriptor\<close> on a malformed
  descriptor and builds no entity for it. It does not: for a central body of radius
  \<open>-1\<close> and for a body that is not central and has no \<^verbatim>\<open>orbitalRadius\<close>, both
  scripts return normally with an entity for each; the second has the mesh at
  \<open>(undefined, 0, 0)\<close>.
\<close>

theorem C5_counterexample:
  "buildScene Script_js
     [star ''Dark'' (- 1) 0,
      (planet ''Lost'' 1 0 0 (1 / 100) (1 / 100) False)\<lparr>orbitalRadius := Undefined\<rparr>] =
   Inr [createBody Script_js (star ''Dark'' (- 1) 0),
        createBody Script_js
          ((planet ''Lost'' 1 0 0 (1 / 100) (1 / 100) False)\<lparr>orbitalRadius := Undefined\<rparr>)] \<and>
   radius (data (createBody Script_js (star ''Dark'' (- 1) 0))) = Num (- 1) \<and>
   position (mesh (createBody Script_js
      ((planet ''Lost'' 1 0 0 (1 / 100) (1 / 100) False)\<lparr>orbitalRadius := Undefined\<rparr>))) =
     Vector3 Undefined (Num 0) (Num 0) \<and>
   buildScene Part_000
     [star ''Dark'' (- 1) 0,
      (planet ''Lost'' 1 0 0 (1 / 100) (1 / 100) False)\<lparr>orbitalRadius := Undefined\<rparr>] \<noteq>
   Inl InvalidDescriptor"
  by (simp add: buildScene_eq star_def planet_def)

text \<open>
  Claim C5, as the scripts have it. The builder validates nothing and has no failure:
  for every list of descriptors, malformed ones included, it returns one entity per
  descriptor, in order, each carrying its descriptor (and \<^verbatim>\<open>part_000\<close> one more,
  the decorative entity).
\<close>

theorem C5_builder_never_rejects:
  "\<exists>objs. buildScene v ds = Inr objs \<and>
     map data (take (length ds) objs) = ds \<and>
     length objs = length ds + (case v of Script_js \<Rightarrow> 0 | Part_000 \<Rightarrow> 1)"
  by (simp add: buildScene_eq comp_def split: variant.split)

theorem C5_witness:
  "\<exists>objs. buildScene Script_js [star ''Dark'' (- 1) 0] = Inr objs \<and>
     map data (take (length [star ''Dark'' (- 1) 0]) objs) = [star ''Dark'' (- 1) 0] \<and>
     length objs = 1"
  using C5_builder_never_rejects [of Script_js "[star ''Dark'' (- 1) 0]"]
  by simp

text \<open>
  Claim C6. The mesh of a central body (\<^verbatim>\<open>isSun\<close>) is built at the scene origin
  and is there after any number of frames: its local position and its world position
  are both the origin, in both scripts.
\<close>

theorem C6_central_body_stays_at_origin:
  "startup v innerWidth innerHeight devicePixelRatio ds = Inr s0 \<and> i < length ds \<and>
   isSun (ds ! i) \<longrightarrow>
     position (mesh (celestialObjects s0 ! i)) = Vector3 (Num 0) (Num 0) (Num 0) \<and>
     position (mesh (celestialObjects (frames_script deltas s0) ! i)) =
       Vector3 (Num 0) (Num 0) (Num 0) \<and>
     getWorldPosition (celestialObjects (frames_script deltas s0) ! i) =
       Vector3 (Num 0) (Num 0) (Num 0) \<and>
     position (mesh (celestialObjects (frames clocks s0) ! i)) =
       Vector3 (Num 0) (Num 0) (Num 0) \<and>
     getWorldPosition (celestialObjects (frames clocks s0) ! i) =
       Vector3 (Num 0) (Num 0) (Num 0)"
proof
  assume h: "startup v innerWidth innerHeight devicePixelRatio ds = Inr s0 \<and> i < length ds \<and>
    isSun (ds ! i)"
  then have l: "i < length (celestialObjects s0)"
    and o: "celestialObjects s0 ! i = createBody v (ds ! i)"
    using startup_objects by blast+
  have t: "\<not> isTheo (celestialObjects s0 ! i)"
    by (simp add: o)
  have p0: "position (mesh (celestialObjects s0 ! i)) = Vector3 (Num 0) (Num 0) (Num 0)"
    using h by (simp add: o)
  have n0: "pivot (celestialObjects s0 ! i) = None"
    using h by (simp add: o)
  have a: "celestialObjects (frames_script deltas s0) ! i =
      (animatePlanet ^^ length deltas) (celestialObjects s0 ! i)"
    using l by (rule frames_script_nth)
  have b: "celestialObjects (frames clocks s0) ! i =
      (animatePlanet ^^ length clocks) (celestialObjects s0 ! i)"
    using l t by (rule frames_nth_planet)
  have pa: "position (mesh (celestialObjects (frames_script deltas s0) ! i)) =
      Vector3 (Num 0) (Num 0) (Num 0)"
    by (simp add: a p0)
  have pb: "position (mesh (celestialObjects (frames clocks s0) ! i)) =
      Vector3 (Num 0) (Num 0) (Num 0)"
    by (simp add: b p0)
  have na: "pivot (celestialObjects (frames_script deltas s0) ! i) = None"
    by (simp add: a n0 funpow_animatePlanet_pivot_None)
  have nb: "pivot (celestialObjects (frames clocks s0) ! i) = None"
    by (simp add: b n0 funpow_animatePlanet_pivot_None)
  show "position (mesh (celestialObjects s0 ! i)) = Vector3 (Num 0) (Num 0) (Num 0) \<and>
     position (mesh (celestialObjects (frames_script deltas s0) ! i)) =
       Vector3 (Num 0) (Num 0) (Num 0) \<and>
     getWorldPosition (celestialObjects (frames_script deltas s0) ! i) =
       Vector3 (Num 0) (Num 0) (Num 0) \<and>
     position (mesh (celestialObjects (frames clocks s0) ! i)) =
       Vector3 (Num 0) (Num 0) (Num 0) \<and>
     getWorldPosition (celestialObjects (frames clocks s0) ! i) =
       Vector3 (Num 0) (Num 0) (Num 0)"
    using p0 pa pb getWorldPosition_root [OF na pa] getWorldPosition_root [OF nb pb]
    by simp
qed

theorem C6_witness:
  "(0::nat) < length solarSystemData \<and> isSun (solarSystemData ! 0) \<and>
   position (mesh (celestialObjects
     (frames [(1 / 60, 1 / 60), (1 / 30, 1 / 20)] (projr (startup Part_000 800 600 1 solarSystemData))) ! 0)) =
     Vector3 (Num 0) (Num 0) (Num 0) \<and>
   getWorldPosition (celestialObjects
     (frames [(1 / 60, 1 / 60), (1 / 30, 1 / 20)] (projr (startup Part_000 800 600 1 solarSystemData))) ! 0) =
     Vector3 (Num 0) (Num 0) (Num 0)"
proof -
  let ?s = "projr (startup Part_000 800 600 1 solarSystemData)"
  have s: "startup Part_000 800 600 1 solarSystemData = Inr ?s"
    by (simp add: startup_eq)
  have l: "(0::nat) < length solarSystemData" "isSun (solarSystemData ! 0)"
    by (simp_all add: solarSystemData_def star_def)
  show ?thesis
    using C6_central_body_stays_at_origin [of Part_000 800 600 1 solarSystemData ?s 0 _
        "[(1 / 60, 1 / 60), (1 / 30, 1 / 20)]"] s l
    by simp
qed

text \<open>
  Claim C7. A frame of \<^verbatim>\<open>part_000\<close> puts the decorative entity at a position that
  is a function of the elapsed time alone, whatever the state before the frame: with
  \<open>angle = elapsedTime \<cdot> 0.1\<close> it is \<open>(cos angle \<cdot> 300, sin angle \<cdot> 200 \<cdot> sin (\<pi>/6),
  sin angle \<cdot> 200 \<cdot> cos (\<pi>/6))\<close>. At \<open>elapsedTime = 10\<close> the angle is \<open>1\<close>, and the three
  coordinates are within \<open>0.05\<close> of \<open>162.1\<close>, \<open>84.1\<close> and \<open>145.7\<close>.
\<close>

theorem C7_theo_position_closed_form:
  "(i < length (celestialObjects s) \<and> isTheo (celestialObjects s ! i) \<longrightarrow>
      position (mesh (celestialObjects (animate (delta, elapsedTime) s) ! i)) =
        Vector3 (Num (cos (elapsedTime * (1 / 10)) * 300))
                (Num (sin (elapsedTime * (1 / 10)) * 200 * sin (pi / 6)))
                (Num (sin (elapsedTime * (1 / 10)) * 200 * cos (pi / 6))) \<and>
      position (mesh (celestialObjects (animate (delta, 10) s) ! i)) =
        Vector3 (Num (cos 1 * 300)) (Num (sin 1 * 200 * sin (pi / 6)))
                (Num (sin 1 * 200 * cos (pi / 6)))) \<and>
   \<bar>cos 1 * 300 - 1621 / 10\<bar> < (5 / 100 :: real) \<and>
   \<bar>sin 1 * 200 * sin (pi / 6) - 841 / 10\<bar> < (5 / 100 :: real) \<and>
   \<bar>sin 1 * 200 * cos (pi / 6) - 1457 / 10\<bar> < (5 / 100 :: real)"
  using scenario_theo_bounds
  by (simp add: animate_nth_theo theoPosition_Num)

theorem C7_witness:
  "(9::nat) < length (celestialObjects (projr (startup Part_000 800 600 1 solarSystemData))) \<and>
   isTheo (celestialObjects (projr (startup Part_000 800 600 1 solarSystemData)) ! 9) \<and>
   position (mesh (celestialObjects
      (animate (1 / 60, 10) (projr (startup Part_000 800 600 1 solarSystemData))) ! 9)) =
     Vector3 (Num (cos 1 * 300)) (Num (sin 1 * 200 * sin (pi / 6)))
             (Num (sin 1 * 200 * cos (pi / 6)))"
proof -
  let ?s = "projr (startup Part_000 800 600 1 solarSystemData)"
  have l: "(9::nat) < length (celestialObjects ?s)"
    by (simp add: startup_eq solarSystemData_def)
  have t: "isTheo (celestialObjects ?s ! 9)"
    by (simp add: startup_eq solarSystemData_def createTheo_def nth_append)
  show ?thesis
    using C7_theo_position_closed_form [of 9 ?s "1 / 60" 10] l t
    by simp
qed

text \<open>
  Claim C8. The orientation of the decorative entity at the end of a frame is recomputed
  from its position and the camera position. Its mesh is what \<^verbatim>\<open>lookAt\<close> makes,
  aimed at the camera's position, of the mesh placed at the position of that frame: the
  quaternion is the one of the matrix that \<^verbatim>\<open>Matrix4.lookAt\<close> builds from the
  camera position, the world position of the mesh and its up vector (taken in the
  parent's frame; the parent of the entity as built is the scene, where the world
  position is the position of the frame itself), and the Euler angles are those of that
  quaternion. So the orientation does not depend on the orientation before the frame:
  replacing the Euler angles and the quaternion it had by any others gives the same state
  after the frame. Nothing accumulates either: after any run of frames followed by one
  more, its mesh is what that last frame alone would have made it (the increment of
  \<^verbatim>\<open>rotation.z\<close> is overwritten by \<^verbatim>\<open>lookAt\<close> in the same frame).
\<close>

theorem C8_billboard_orientation_is_recomputed:
  "i < length (celestialObjects s) \<and> isTheo (celestialObjects s ! i) \<longrightarrow>
     animate clock
       (s\<lparr>celestialObjects := (celestialObjects s)
            [i := (celestialObjects s ! i)\<lparr>mesh := (mesh (celestialObjects s ! i))
                    \<lparr>rotation := e, quaternion := q\<rparr>\<rparr>]\<rparr>) =
     animate clock s \<and>
     mesh (celestialObjects (frames (clocks @ [clock]) s) ! i) =
       mesh (celestialObjects (animate clock s) ! i) \<and>
     mesh (celestialObjects (animate clock s) ! i) =
       lookAt (parentMatrixWorld (celestialObjects s ! i)) (camera_position s)
         ((mesh (celestialObjects s ! i))\<lparr>position := theoPosition (Num (snd clock))\<rparr>) \<and>
     quaternion (mesh (celestialObjects (animate clock s) ! i)) =
       multiplyQuaternions
         (invert (setFromRotationMatrix
            (extractRotation (parentMatrixWorld (celestialObjects s ! i)))))
         (setFromRotationMatrix
            (matrix_lookAt (camera_position s)
               (setFromMatrixPosition
                  (worldMatrix (parentMatrixWorld (celestialObjects s ! i))
                     ((mesh (celestialObjects s ! i))
                        \<lparr>position := theoPosition (Num (snd clock))\<rparr>)))
               (up (mesh (celestialObjects s ! i))))) \<and>
     rotation (mesh (celestialObjects (animate clock s) ! i)) =
       setFromQuaternion (quaternion (mesh (celestialObjects (animate clock s) ! i))) \<and>
     (pivot (celestialObjects s ! i) = None \<longrightarrow>
        quaternion (mesh (celestialObjects (animate clock s) ! i)) =
          multiplyQuaternions (Quaternion (Num 0) (Num 0) (Num 0) (Num 1))
            (setFromRotationMatrix
               (matrix_lookAt (camera_position s) (theoPosition (Num (snd clock)))
                  (up (mesh (celestialObjects s ! i))))))"
proof (intro impI conjI)
  assume h: "i < length (celestialObjects s) \<and> isTheo (celestialObjects s ! i)"
  let ?o = "celestialObjects s ! i"
  let ?m = "(mesh ?o)\<lparr>position := theoPosition (Num (snd clock))\<rparr>"
  have "updateObject (camera_position s) (Num (snd clock))
          (?o\<lparr>mesh := (mesh ?o)\<lparr>rotation := e, quaternion := q\<rparr>\<rparr>) =
        updateObject (camera_position s) (Num (snd clock)) ?o"
    using h animateTheo_prior_free [where cam = "camera_position s" and t = "Num (snd clock)"
        and obj = ?o and p = "position (mesh ?o)" and e = e and q = q]
    by (simp add: updateObject_def)
  then show "animate clock
       (s\<lparr>celestialObjects := (celestialObjects s)
            [i := ?o\<lparr>mesh := (mesh ?o)\<lparr>rotation := e, quaternion := q\<rparr>\<rparr>]\<rparr>) =
     animate clock s"
    using h by (simp add: animate_def map_update list_update_same_conv)
  obtain p' e' q' where a: "celestialObjects (frames clocks s) ! i =
      ?o\<lparr>mesh := (mesh ?o)\<lparr>position := p', rotation := e', quaternion := q'\<rparr>\<rparr>"
    using frames_nth_theo [of i s clocks] h by blast
  have f: "frames (clocks @ [clock]) s = animate clock (frames clocks s)" for s
    by (induction clocks arbitrary: s) simp_all
  have "celestialObjects (frames (clocks @ [clock]) s) ! i =
      animateTheo (camera_position s) (Num (snd clock)) (celestialObjects (frames clocks s) ! i)"
    using h by (simp add: f animate_nth_theo a)
  also have "\<dots> = animateTheo (camera_position s) (Num (snd clock)) ?o"
    unfolding a by (rule animateTheo_prior_free)
  also have "\<dots> = celestialObjects (animate clock s) ! i"
    using h by (simp add: animate_nth_theo)
  finally show "mesh (celestialObjects (frames (clocks @ [clock]) s) ! i) =
       mesh (celestialObjects (animate clock s) ! i)"
    by simp
  show m: "mesh (celestialObjects (animate clock s) ! i) =
      lookAt (parentMatrixWorld ?o) (camera_position s) ?m"
    using h by (simp add: animate_nth_theo animateTheo_mesh)
  show k: "quaternion (mesh (celestialObjects (animate clock s) ! i)) =
       multiplyQuaternions
         (invert (setFromRotationMatrix (extractRotation (parentMatrixWorld ?o))))
         (setFromRotationMatrix
            (matrix_lookAt (camera_position s)
               (setFromMatrixPosition (worldMatrix (parentMatrixWorld ?o) ?m))
               (up (mesh ?o))))"
    unfolding m lookAt_orientation(1) by simp
  show "rotation (mesh (celestialObjects (animate clock s) ! i)) =
       setFromQuaternion (quaternion (mesh (celestialObjects (animate clock s) ! i)))"
    unfolding m by (rule lookAt_orientation(2))
  assume n: "pivot ?o = None"
  have p: "parentMatrixWorld ?o = sceneMatrixWorld"
    using n by (simp add: parentMatrixWorld_def)
  have w: "setFromMatrixPosition (worldMatrix sceneMatrixWorld ?m) =
      theoPosition (Num (snd clock))"
    unfolding theoPosition_Num by (rule worldPosition_at_root) (simp add: theoPosition_Num)
  show "quaternion (mesh (celestialObjects (animate clock s) ! i)) =
          multiplyQuaternions (Quaternion (Num 0) (Num 0) (Num 0) (Num 1))
            (setFromRotationMatrix
               (matrix_lookAt (camera_position s) (theoPosition (Num (snd clock)))
                  (up (mesh ?o))))"
    unfolding k p w scene_rotation_inverse ..
qed

theorem C8_witness:
  "(9::nat) < length (celestialObjects (projr (startup Part_000 800 600 1 solarSystemData))) \<and>
   isTheo (celestialObjects (projr (startup Part_000 800 600 1 solarSystemData)) ! 9) \<and>
   mesh (celestialObjects
      (frames ([(1 / 60, 1 / 60), (1 / 30, 1 / 20)] @ [(1 / 60, 1 / 15)])
         (projr (startup Part_000 800 600 1 solarSystemData))) ! 9) =
   mesh (celestialObjects
      (animate (1 / 60, 1 / 15) (projr (startup Part_000 800 600 1 solarSystemData))) ! 9) \<and>
   pivot (celestialObjects (projr (startup Part_000 800 600 1 solarSystemData)) ! 9) = None \<and>
   theoPosition (Num 0) = Vector3 (Num 300) (Num 0) (Num 0) \<and>
   quaternion (mesh (celestialObjects
      (animate (0, 0)
         ((projr (startup Part_000 800 600 1 solarSystemData))
            \<lparr>camera_position := Vector3 (Num 700) (Num 0) (Num 0)\<rparr>)) ! 9)) =
     Quaternion (Num 0) (Num (1 / sqrt 2)) (Num 0) (Num (sqrt 2 / 2))"
proof -
  let ?s = "projr (startup Part_000 800 600 1 solarSystemData)"
  let ?s' = "?s\<lparr>camera_position := Vector3 (Num 700) (Num 0) (Num 0)\<rparr>"
  have l: "(9::nat) < length (celestialObjects ?s)"
    by (simp add: startup_eq solarSystemData_def)
  have o: "celestialObjects ?s ! 9 = createTheo"
    by (simp add: startup_eq solarSystemData_def nth_append)
  have t: "isTheo (celestialObjects ?s ! 9)"
    by (simp add: o createTheo_def)
  have n: "pivot (celestialObjects ?s ! 9) = None"
    by (simp add: o createTheo_def)
  have u: "up (mesh (celestialObjects ?s ! 9)) = Vector3 (Num 0) (Num 1) (Num 0)"
    by (simp add: o createTheo_def newObject3D_def)
  have p: "theoPosition (Num 0) = Vector3 (Num 300) (Num 0) (Num 0)"
    by (simp add: theoPosition_Num)
  have a: "mesh (celestialObjects
      (frames ([(1 / 60, 1 / 60), (1 / 30, 1 / 20)] @ [(1 / 60, 1 / 15)]) ?s) ! 9) =
      mesh (celestialObjects (animate (1 / 60, 1 / 15) ?s) ! 9)"
    using C8_billboard_orientation_is_recomputed [where i = 9 and s = ?s
        and clock = "(1 / 60, 1 / 15)" and clocks = "[(1 / 60, 1 / 60), (1 / 30, 1 / 20)]"] l t
    by blast
  have l': "9 < length (celestialObjects ?s')" and t': "isTheo (celestialObjects ?s' ! 9)"
    and n': "pivot (celestialObjects ?s' ! 9) = None"
    using l t n by simp_all
  have "quaternion (mesh (celestialObjects (animate (0, 0) ?s') ! 9)) =
      multiplyQuaternions (Quaternion (Num 0) (Num 0) (Num 0) (Num 1))
        (setFromRotationMatrix
           (matrix_lookAt (camera_position ?s') (theoPosition (Num (snd (0::real, 0::real))))
              (up (mesh (celestialObjects ?s' ! 9)))))"
    by (rule C8_billboard_orientation_is_recomputed [where i = 9 and s = ?s'
          and clock = "(0, 0)", THEN mp, OF conjI [OF l' t'], THEN conjunct2, THEN conjunct2,
          THEN conjunct2, THEN conjunct2, THEN conjunct2, THEN mp, OF n'])
  also have "\<dots> = multiplyQuaternions (Quaternion (Num 0) (Num 0) (Num 0) (Num 1))
        (Quaternion (Num 0) (Num (1 / sqrt 2)) (Num 0) (Num (sqrt 2 / 2)))"
    using u by (simp add: p matrix_lookAt_along_x quaternion_quarter_turn)
  also have "\<dots> = Quaternion (Num 0) (Num (1 / sqrt 2)) (Num 0) (Num (sqrt 2 / 2))"
    by (simp add: multiplyQuaternions_def)
  finally have b: "quaternion (mesh (celestialObjects (animate (0, 0) ?s') ! 9)) =
      Quaternion (Num 0) (Num (1 / sqrt 2)) (Num 0) (Num (sqrt 2 / 2))" .
  show ?thesis
    by (rule conjI [OF l conjI [OF t conjI [OF a conjI [OF n conjI [OF p b]]]]])
qed

text \<open>
  Claim C9. A resize notification with the window at \<open>innerWidth \<times> innerHeight\<close> sets
  the camera's aspect ratio to \<open>innerWidth / innerHeight\<close> (for a height that is not
  zero), the size of the renderer and, in \<^verbatim>\<open>part_000\<close>, of the label renderer to
  \<open>(innerWidth, innerHeight)\<close>, and leaves \<^verbatim>\<open>celestialObjects\<close> as it is, so
  every pivot angle and self-rotation angle with it. \<^verbatim>\<open>script.js\<close> has no label
  renderer; its listener sets the aspect ratio and the one renderer.
\<close>

theorem C9_resize_sets_sizes_and_keeps_angles:
  "(innerHeight \<noteq> 0 \<longrightarrow>
      camera_aspect (resize innerWidth innerHeight devicePixelRatio s) =
        Num (real innerWidth / real innerHeight) \<and>
      camera_aspect (resize_script innerWidth innerHeight devicePixelRatio s) =
        Num (real innerWidth / real innerHeight)) \<and>
   renderer_size (resize innerWidth innerHeight devicePixelRatio s) =
     (Num (real innerWidth), Num (real innerHeight)) \<and>
   labelRenderer_size (resize innerWidth innerHeight devicePixelRatio s) =
     Some (Num (real innerWidth), Num (real innerHeight)) \<and>
   celestialObjects (resize innerWidth innerHeight devicePixelRatio s) = celestialObjects s \<and>
   renderer_size (resize_script innerWidth innerHeight devicePixelRatio s) =
     (Num (real innerWidth), Num (real innerHeight)) \<and>
   labelRenderer_size (resize_script innerWidth innerHeight devicePixelRatio s) =
     labelRenderer_size s \<and>
   celestialObjects (resize_script innerWidth innerHeight devicePixelRatio s) =
     celestialObjects s"
  by (simp add: resize_def resize_script_def)

theorem C9_witness:
  "(768::nat) \<noteq> 0 \<and>
   camera_aspect (resize 1024 768 2
      (frames [(1 / 60, 1 / 60)] (projr (startup Part_000 800 600 1 solarSystemData)))) =
     Num (4 / 3) \<and>
   renderer_size (resize 1024 768 2
      (frames [(1 / 60, 1 / 60)] (projr (startup Part_000 800 600 1 solarSystemData)))) =
     (Num 1024, Num 768) \<and>
   labelRenderer_size (resize 1024 768 2
      (frames [(1 / 60, 1 / 60)] (projr (startup Part_000 800 600 1 solarSystemData)))) =
     Some (Num 1024, Num 768) \<and>
   celestialObjects (resize 1024 768 2
      (frames [(1 / 60, 1 / 60)] (projr (startup Part_000 800 600 1 solarSystemData)))) =
   celestialObjects
      (frames [(1 / 60, 1 / 60)] (projr (startup Part_000 800 600 1 solarSystemData)))"
  using C9_resize_sets_sizes_and_keeps_angles [where innerHeight = 768 and innerWidth = 1024
      and devicePixelRatio = 2
      and s = "frames [(1 / 60, 1 / 60)] (projr (startup Part_000 800 600 1 solarSystemData))"]
  by simp

text \<open>
  Claim C10. The frames write rotation angles only. In any state, the local position of
  the mesh of a body and the position of its pivot are after any number of frames what
  they were before. For the bodies the scripts build that are not central, the mesh is
  therefore at \<open>(orbitalRadius, 0, 0)\<close> relative to its pivot after every frame.
\<close>

theorem C10_orbit_radius_is_invariant:
  "(i < length (celestialObjects s) \<longrightarrow>
      position (mesh (celestialObjects (frames_script deltas s) ! i)) =
        position (mesh (celestialObjects s ! i)) \<and>
      map_option position (pivot (celestialObjects (frames_script deltas s) ! i)) =
        map_option position (pivot (celestialObjects s ! i)) \<and>
      (\<not> isTheo (celestialObjects s ! i) \<longrightarrow>
        position (mesh (celestialObjects (frames clocks s) ! i)) =
          position (mesh (celestialObjects s ! i)) \<and>
        map_option position (pivot (celestialObjects (frames clocks s) ! i)) =
          map_option position (pivot (celestialObjects s ! i)))) \<and>
   (startup v innerWidth innerHeight devicePixelRatio ds = Inr s0 \<and> j < length ds \<and>
    \<not> isSun (ds ! j) \<longrightarrow>
      position (mesh (celestialObjects s0 ! j)) =
        Vector3 (orbitalRadius (ds ! j)) (Num 0) (Num 0) \<and>
      position (mesh (celestialObjects (frames_script deltas s0) ! j)) =
        Vector3 (orbitalRadius (ds ! j)) (Num 0) (Num 0) \<and>
      position (mesh (celestialObjects (frames clocks s0) ! j)) =
        Vector3 (orbitalRadius (ds ! j)) (Num 0) (Num 0))"
proof (intro conjI impI)
  assume l: "i < length (celestialObjects s)"
  then show "position (mesh (celestialObjects (frames_script deltas s) ! i)) =
      position (mesh (celestialObjects s ! i))"
    by (simp add: frames_script_nth)
  from l show "map_option position (pivot (celestialObjects (frames_script deltas s) ! i)) =
      map_option position (pivot (celestialObjects s ! i))"
    by (simp add: frames_script_nth)
  assume t: "\<not> isTheo (celestialObjects s ! i)"
  with l show "position (mesh (celestialObjects (frames clocks s) ! i)) =
      position (mesh (celestialObjects s ! i))"
    by (simp add: frames_nth_planet)
  from l t show "map_option position (pivot (celestialObjects (frames clocks s) ! i)) =
      map_option position (pivot (celestialObjects s ! i))"
    by (simp add: frames_nth_planet)
next
  assume h: "startup v innerWidth innerHeight devicePixelRatio ds = Inr s0 \<and> j < length ds \<and>
    \<not> isSun (ds ! j)"
  then have l: "j < length (celestialObjects s0)"
    and o: "celestialObjects s0 ! j = createBody v (ds ! j)"
    using startup_objects by blast+
  have t: "\<not> isTheo (celestialObjects s0 ! j)"
    by (simp add: o)
  show p0: "position (mesh (celestialObjects s0 ! j)) =
      Vector3 (orbitalRadius (ds ! j)) (Num 0) (Num 0)"
    using h by (simp add: o)
  show "position (mesh (celestialObjects (frames_script deltas s0) ! j)) =
      Vector3 (orbitalRadius (ds ! j)) (Num 0) (Num 0)"
    using l p0 by (simp add: frames_script_nth)
  show "position (mesh (celestialObjects (frames clocks s0) ! j)) =
      Vector3 (orbitalRadius (ds ! j)) (Num 0) (Num 0)"
    using l t p0 by (simp add: frames_nth_planet)
qed

theorem C10_witness:
  "(3::nat) < length solarSystemData \<and> \<not> isSun (solarSystemData ! 3) \<and>
   position (mesh (celestialObjects
     (frames_script [1 / 60, 1 / 30] (projr (startup Script_js 800 600 1 solarSystemData))) ! 3)) =
     Vector3 (Num 120) (Num 0) (Num 0) \<and>
   position (mesh (celestialObjects
     (frames [(1 / 60, 1 / 60), (1 / 30, 1 / 20)] (projr (startup Script_js 800 600 1 solarSystemData))) ! 3)) =
     Vector3 (Num 120) (Num 0) (Num 0)"
proof -
  let ?s = "projr (startup Script_js 800 600 1 solarSystemData)"
  have s: "startup Script_js 800 600 1 solarSystemData = Inr ?s"
    by (simp add: startup_eq)
  have l: "(3::nat) < length solarSystemData" "\<not> isSun (solarSystemData ! 3)"
    "orbitalRadius (solarSystemData ! 3) = Num 120"
    by (simp_all add: solarSystemData_def planet_def)
  show ?thesis
    using C10_orbit_radius_is_invariant [where v = Script_js and innerWidth = 800
        and innerHeight = 600 and devicePixelRatio = 1 and ds = solarSystemData
        and ?s0.0 = ?s and j = 3 and deltas = "[1 / 60, 1 / 30]"
        and clocks = "[(1 / 60, 1 / 60), (1 / 30, 1 / 20)]", THEN conjunct2] s l
    by simp
qed

section \<open>Further properties of the scripts\<close>

text \<open>
  Before the builder has produced an entity the array is empty, and a frame of either
  script is then a no-op: it returns the state it was given, and so does any run of
  frames.
\<close>

theorem X1_frame_without_entities_is_a_no_op:
  "celestialObjects s = [] \<longrightarrow>
     animate clock s = s \<and> animate_script delta s = s \<and>
     frames clocks s = s \<and> frames_script deltas s = s"
proof
  assume e: "celestialObjects s = []"
  have a: "animate c s = s" for c
    using e by (simp add: animate_def)
  have b: "animate_script d s = s" for d
    using e by (simp add: animate_script_def)
  have "frames clocks s = s"
    by (induction clocks) (simp_all add: a)
  moreover have "frames_script deltas s = s"
    by (induction deltas) (simp_all add: b)
  ultimately show "animate clock s = s \<and> animate_script delta s = s \<and>
     frames clocks s = s \<and> frames_script deltas s = s"
    using a b by simp
qed

theorem X1_witness:
  "celestialObjects (basicSetup Part_000 800 600 1) = [] \<and>
   animate (1 / 60, 1 / 60) (basicSetup Part_000 800 600 1) = basicSetup Part_000 800 600 1 \<and>
   animate_script (1 / 60) (basicSetup Part_000 800 600 1) = basicSetup Part_000 800 600 1"
proof -
  have e: "celestialObjects (basicSetup Part_000 800 600 1) = []"
    by (simp add: basicSetup_def)
  show ?thesis
    using X1_frame_without_entities_is_a_no_op [of "basicSetup Part_000 800 600 1"
        "(1 / 60, 1 / 60)" "1 / 60"] e
    by simp
qed

text \<open>
  A body that is not central and has the flag \<^verbatim>\<open>hasRing\<close> gets a ring with inner
  radius \<open>1.3\<close> and outer radius \<open>2\<close> times the radius of the body, turned by \<open>\<pi>/2\<close>
  about its \<open>x\<close> axis and placed at the centre of the mesh, its parent. A central body,
  or one without the flag, gets none.
\<close>

theorem X2_ring_of_a_body:
  "(\<not> isSun d \<and> hasRing d \<and> radius d = Num r \<longrightarrow>
      (\<exists>g. ring (createBody v d) = Some g \<and>
           innerRadius g = Num (r * (13 / 10)) \<and> outerRadius g = Num (r * 2) \<and>
           rotation (ringObject g) = Euler (Num (pi / 2)) (Num 0) (Num 0) \<and>
           position (ringObject g) = Vector3 (Num 0) (Num 0) (Num 0))) \<and>
   (isSun d \<or> \<not> hasRing d \<longrightarrow> ring (createBody v d) = None)"
  by (auto simp: createBody_def createRing_def set_rotation_x_def set_rotation_def
      newObject3D_def Math_PI_def)

theorem X2_witness:
  "\<not> isSun (solarSystemData ! 6) \<and> hasRing (solarSystemData ! 6) \<and>
   radius (solarSystemData ! 6) = Num 10 \<and>
   (\<exists>g. ring (createBody Part_000 (solarSystemData ! 6)) = Some g \<and>
        innerRadius g = Num 13 \<and> outerRadius g = Num 20 \<and>
        rotation (ringObject g) = Euler (Num (pi / 2)) (Num 0) (Num 0))"
proof -
  have d: "\<not> isSun (solarSystemData ! 6)" "hasRing (solarSystemData ! 6)"
    "radius (solarSystemData ! 6) = Num 10"
    by (simp_all add: solarSystemData_def planet_def)
  show ?thesis
    using X2_ring_of_a_body [of "solarSystemData ! 6" 10 Part_000] d
    by auto
qed

end
